theory Spec2Isabelle
  imports Complex_Main "HOL-Library.Char_ord" "HOL-Library.List_Lexorder"
begin

section \<open>JavaScript numbers as used by the reconciliation code\<close>

text \<open>
  A numeric property of an entry is either a number or absent (\<open>undefined\<close>).  Arithmetic
  on \<open>undefined\<close> gives \<open>NaN\<close>, and \<open>undefined\<close> and \<open>NaN\<close> behave alike under every
  operator the code applies to them: both are falsy for \<open>||\<close>, every comparison with them
  is false, and \<open>+ - * /\<close>, \<open>Math.abs\<close>, \<open>Math.pow\<close> and \<open>Math.sqrt\<close> propagate \<open>NaN\<close>.
  So one value, \<open>None\<close>, stands for both; the single place where they differ, a method
  call such as \<open>x.toFixed(2)\<close> on \<open>undefined\<close>, is modelled where it occurs as the
  \<open>TypeError\<close> it raises.  Numbers are exact reals: rounding of IEEE doubles, signed zero
  and overflow are outside the model.  A division by zero, which JavaScript answers with
  an infinity or \<open>NaN\<close>, is the non-number \<open>None\<close> as well.
\<close>

type_synonym jsnum = "real option"

datatype js_error = TypeError

fun js_add :: "jsnum \<Rightarrow> jsnum \<Rightarrow> jsnum" where
  "js_add (Some x) (Some y) = Some (x + y)"
| "js_add _ _ = None"

fun js_sub :: "jsnum \<Rightarrow> jsnum \<Rightarrow> jsnum" where
  "js_sub (Some x) (Some y) = Some (x - y)"
| "js_sub _ _ = None"

fun js_mul :: "jsnum \<Rightarrow> jsnum \<Rightarrow> jsnum" where
  "js_mul (Some x) (Some y) = Some (x * y)"
| "js_mul _ _ = None"

fun js_div :: "jsnum \<Rightarrow> jsnum \<Rightarrow> jsnum" where
  "js_div (Some x) (Some y) = (if y = 0 then None else Some (x / y))"
| "js_div _ _ = None"

fun js_abs :: "jsnum \<Rightarrow> jsnum" where
  "js_abs (Some x) = Some \<bar>x\<bar>"
| "js_abs None = None"

fun js_sqrt :: "jsnum \<Rightarrow> jsnum" where
  "js_sqrt (Some x) = (if x < 0 then None else Some (sqrt x))"
| "js_sqrt None = None"

fun js_gt :: "jsnum \<Rightarrow> jsnum \<Rightarrow> bool" where
  "js_gt (Some x) (Some y) = (x > y)"
| "js_gt _ _ = False"

fun js_lt :: "jsnum \<Rightarrow> jsnum \<Rightarrow> bool" where
  "js_lt (Some x) (Some y) = (x < y)"
| "js_lt _ _ = False"

fun js_le :: "jsnum \<Rightarrow> jsnum \<Rightarrow> bool" where
  "js_le (Some x) (Some y) = (x \<le> y)"
| "js_le _ _ = False"

fun js_ge :: "jsnum \<Rightarrow> jsnum \<Rightarrow> bool" where
  "js_ge (Some x) (Some y) = (x \<ge> y)"
| "js_ge _ _ = False"

text \<open>\<open>a || b\<close> on numbers: \<open>a\<close> unless it is \<open>0\<close>, \<open>NaN\<close> or \<open>undefined\<close>.\<close>

fun js_or :: "jsnum \<Rightarrow> jsnum \<Rightarrow> jsnum" where
  "js_or (Some x) b = (if x = 0 then b else Some x)"
| "js_or None b = b"

text \<open>
  A string property that may be absent.  \<open>!s\<close> holds for \<open>undefined\<close> and for the empty
  string; a template literal prints \<open>undefined\<close> as the nine letters.
\<close>

definition js_not :: "string option \<Rightarrow> bool" where
  "js_not s = (s = None \<or> s = Some [])"

definition js_str :: "string option \<Rightarrow> string" where
  "js_str s = (case s of None \<Rightarrow> ''undefined'' | Some v \<Rightarrow> v)"

section \<open>Sales entries and their creation\<close>

text \<open>
  One record type serves the form data, the stored entry and the engine's input: the
  raw fields and the derived ones, each possibly absent.  \<open>id\<close> is spelled \<open>entryId\<close>
  because \<open>id\<close> is the identity function of HOL.  The \<open>timestamp\<close> property that the
  form adds is carried along unread and is left out.
\<close>

record entry =
  entryId :: string
  date :: "string option"
  registerNumber :: "string option"
  openingCash :: jsnum
  cashSales :: jsnum
  cardSales :: jsnum
  returnsRefunds :: jsnum
  cashDrops :: jsnum
  closingCash :: jsnum
  expectedCash :: jsnum
  cashDifference :: jsnum
  totalSales :: jsnum
  status :: "string option"

text \<open>
  \<open>SalesReconciliationApp.saveSalesEntry\<close> (app part of Code.gs): the four assignments to
  \<open>data\<close>, in the source's order, then \<open>this.salesData.push(data)\<close>.  The state is the
  list of stored entries; persisting it and the unused result of
  \<open>this.reconciliation.addSalesData(data)\<close> are left to the collaborators.
\<close>

definition saveSalesEntry :: "entry list \<Rightarrow> entry \<Rightarrow> entry list" where
  "saveSalesEntry salesData data =
     (let d1 = data\<lparr>totalSales := js_add (cashSales data) (cardSales data)\<rparr>;
          d2 = d1\<lparr>expectedCash :=
                 js_sub (js_sub (js_add (openingCash d1) (cashSales d1)) (returnsRefunds d1))
                        (cashDrops d1)\<rparr>;
          d3 = d2\<lparr>cashDifference := js_sub (closingCash d2) (expectedCash d2)\<rparr>;
          d4 = d3\<lparr>status :=
                 Some (if js_le (js_abs (cashDifference d3)) (Some 5)
                       then ''balanced'' else ''discrepancy'')\<rparr>
      in salesData @ [d4])"

text \<open>
  \<open>addSalesEntry\<close> (Apps Script part of Code.gs).  The constant
  \<open>CONFIG.RECONCILIATION_RULES.CASH_DISCREPANCY_THRESHOLD\<close> and the reading of
  \<open>Date.now()\<close>, already printed, are parameters; the value is the row handed to
  \<open>appendRow\<close>, as an entry.
\<close>

definition addSalesEntry :: "real \<Rightarrow> string \<Rightarrow> entry \<Rightarrow> entry" where
  "addSalesEntry CASH_DISCREPANCY_THRESHOLD now salesData =
     (let entryId' = ''ENT_'' @ now;
          expectedCash' =
            js_sub (js_sub (js_add (openingCash salesData) (cashSales salesData))
                           (returnsRefunds salesData))
                   (cashDrops salesData);
          cashDifference' = js_sub (closingCash salesData) expectedCash';
          totalSales' = js_add (cashSales salesData) (cardSales salesData);
          status' = (if js_le (js_abs cashDifference') (Some CASH_DISCREPANCY_THRESHOLD)
                     then ''balanced'' else ''discrepancy'')
      in \<lparr>entryId = entryId', date = date salesData,
          registerNumber = registerNumber salesData,
          openingCash = openingCash salesData, cashSales = cashSales salesData,
          cardSales = cardSales salesData, returnsRefunds = returnsRefunds salesData,
          cashDrops = cashDrops salesData, closingCash = closingCash salesData,
          expectedCash = expectedCash', cashDifference = cashDifference',
          totalSales = totalSales', status = Some status'\<rparr>)"

section \<open>The reconciliation engine\<close>

text \<open>The constructor's \<open>reconciliationRules\<close>; \<open>updateReconciliationRules\<close> may replace any of them.\<close>

record rules =
  cashDiscrepancyThreshold :: real
  largeDiscrepancyThreshold :: real
  maxReturnsPercentage :: real
  minOpeningCash :: real

definition defaultRules :: rules where
  "defaultRules = \<lparr>cashDiscrepancyThreshold = 5, largeDiscrepancyThreshold = 50,
                    maxReturnsPercentage = 10, minOpeningCash = 100\<rparr>"

datatype severity = High | Medium | Low

datatype issue_type =
  cash_discrepancy | high_returns | low_opening_cash | zero_sales | negative_values

text \<open>
  The objects the engine builds are records whose fields carry a letter for their record,
  since two records cannot share a field name: \<open>i_\<close> an issue, \<open>d_\<close> a discrepancy,
  \<open>v_\<close> a validation error, \<open>t_\<close> the totals, \<open>s_\<close> the summary, \<open>o_\<close> the overall
  status, \<open>r_\<close> the results, \<open>h_\<close> a history element.  A property that an object
  literal does not set is \<open>None\<close> (or the empty list).  The \<open>description\<close> strings are
  display text and are left out; where building one calls \<open>toFixed\<close> on a property that
  may be \<open>undefined\<close>, the \<open>TypeError\<close> is kept.
\<close>

record issue =
  i_type :: issue_type
  i_severity :: severity
  i_amount :: jsnum
  i_percentage :: jsnum

record discrepancy =
  d_entryId :: string
  d_date :: "string option"
  d_registerNumber :: "string option"
  d_cashDifference :: jsnum
  d_issues :: "issue list"
  d_overallSeverity :: severity

record totals =
  t_totalEntries :: nat
  t_totalSales :: jsnum
  t_cashSales :: jsnum
  t_cardSales :: jsnum
  t_totalReturns :: jsnum
  t_totalCashDrops :: jsnum
  t_openingCash :: jsnum
  t_closingCash :: jsnum
  t_expectedCash :: jsnum
  t_actualCashPosition :: jsnum
  t_totalCashDifference :: jsnum
  t_overallCashDifference :: jsnum

subsection \<open>calculateTotals\<close>

text \<open>The callback of \<open>salesData.forEach\<close>: eight \<open>+=\<close> on the totals.\<close>

definition calculateTotals_step :: "totals \<Rightarrow> entry \<Rightarrow> totals" where
  "calculateTotals_step t e =
     t\<lparr>t_totalSales :=
          js_add (t_totalSales t) (js_or (totalSales e) (js_add (cashSales e) (cardSales e))),
        t_cashSales := js_add (t_cashSales t) (js_or (cashSales e) (Some 0)),
        t_cardSales := js_add (t_cardSales t) (js_or (cardSales e) (Some 0)),
        t_totalReturns := js_add (t_totalReturns t) (js_or (returnsRefunds e) (Some 0)),
        t_totalCashDrops := js_add (t_totalCashDrops t) (js_or (cashDrops e) (Some 0)),
        t_openingCash := js_add (t_openingCash t) (js_or (openingCash e) (Some 0)),
        t_closingCash := js_add (t_closingCash t) (js_or (closingCash e) (Some 0)),
        t_totalCashDifference :=
          js_add (t_totalCashDifference t) (js_or (cashDifference e) (Some 0))\<rparr>"

definition calculateTotals :: "entry list \<Rightarrow> totals" where
  "calculateTotals salesData =
     (let t0 = \<lparr>t_totalEntries = length salesData, t_totalSales = Some 0,
                 t_cashSales = Some 0, t_cardSales = Some 0, t_totalReturns = Some 0,
                 t_totalCashDrops = Some 0, t_openingCash = Some 0, t_closingCash = Some 0,
                 t_expectedCash = Some 0, t_actualCashPosition = Some 0,
                 t_totalCashDifference = Some 0, t_overallCashDifference = None\<rparr>;
          t1 = foldl calculateTotals_step t0 salesData;
          t2 = t1\<lparr>t_expectedCash :=
                 js_sub (js_sub (js_add (t_openingCash t1) (t_cashSales t1)) (t_totalReturns t1))
                        (t_totalCashDrops t1)\<rparr>;
          t3 = t2\<lparr>t_actualCashPosition := t_closingCash t2\<rparr>
      in t3\<lparr>t_overallCashDifference :=
              js_sub (t_actualCashPosition t3) (t_expectedCash t3)\<rparr>)"

subsection \<open>findDiscrepancies\<close>

definition calculateOverallSeverity :: "issue list \<Rightarrow> severity" where
  "calculateOverallSeverity issues =
     (if list_ex (\<lambda>i. i_severity i = High) issues then High
      else if list_ex (\<lambda>i. i_severity i = Medium) issues then Medium
      else Low)"

text \<open>\<open>returnsPercentage\<close> of the forEach callback, with its guard on the divisor.\<close>

definition returnsPercentage :: "entry \<Rightarrow> jsnum" where
  "returnsPercentage e =
     (if js_gt (totalSales e) (Some 0)
      then js_mul (js_div (returnsRefunds e) (totalSales e)) (Some 100)
      else Some 0)"

text \<open>
  The five checks of the callback, in the source's order.  Only the first can raise: its
  description calls \<open>entry.cashDifference.toFixed(2)\<close>, and \<open>cashDifference\<close> is
  \<open>undefined\<close> there when the property is absent and the threshold is negative.
\<close>

definition findDiscrepancies_issues :: "rules \<Rightarrow> entry \<Rightarrow> js_error + issue list" where
  "findDiscrepancies_issues rs e =
     (let cashDiff = js_abs (js_or (cashDifference e) (Some 0));
          c2 = (if js_gt (returnsPercentage e) (Some (maxReturnsPercentage rs))
                then [\<lparr>i_type = high_returns, i_severity = Medium, i_amount = None,
                        i_percentage = returnsPercentage e\<rparr>]
                else []);
          c3 = (if js_lt (openingCash e) (Some (minOpeningCash rs))
                then [\<lparr>i_type = low_opening_cash, i_severity = Low,
                        i_amount = openingCash e, i_percentage = None\<rparr>]
                else []);
          c4 = (if totalSales e = Some 0 \<and> cashSales e = Some 0 \<and> cardSales e = Some 0
                then [\<lparr>i_type = zero_sales, i_severity = Medium, i_amount = None,
                        i_percentage = None\<rparr>]
                else []);
          c5 = (if js_lt (cashSales e) (Some 0) \<or> js_lt (cardSales e) (Some 0)
                   \<or> js_lt (closingCash e) (Some 0)
                then [\<lparr>i_type = negative_values, i_severity = High, i_amount = None,
                        i_percentage = None\<rparr>]
                else [])
      in if js_gt cashDiff (Some (cashDiscrepancyThreshold rs))
         then (case cashDifference e of
                 None \<Rightarrow> Inl TypeError
               | Some c \<Rightarrow>
                   Inr (\<lparr>i_type = cash_discrepancy,
                         i_severity = (if js_gt cashDiff (Some (largeDiscrepancyThreshold rs))
                                       then High else Medium),
                         i_amount = Some c, i_percentage = None\<rparr> # c2 @ c3 @ c4 @ c5))
         else Inr (c2 @ c3 @ c4 @ c5))"

text \<open>The forEach loop: an entry with at least one issue adds a discrepancy; a raise ends the loop.\<close>

fun findDiscrepancies_loop :: "rules \<Rightarrow> entry list \<Rightarrow> js_error + discrepancy list" where
  "findDiscrepancies_loop rs [] = Inr []"
| "findDiscrepancies_loop rs (e # es) =
     (case findDiscrepancies_issues rs e of
        Inl err \<Rightarrow> Inl err
      | Inr issues \<Rightarrow>
          (case findDiscrepancies_loop rs es of
             Inl err \<Rightarrow> Inl err
           | Inr ds \<Rightarrow>
               Inr ((if length issues > 0
                     then [\<lparr>d_entryId = entryId e, d_date = date e,
                             d_registerNumber = registerNumber e,
                             d_cashDifference = cashDifference e, d_issues = issues,
                             d_overallSeverity = calculateOverallSeverity issues\<rparr>]
                     else []) @ ds)))"

definition severityOrder :: "severity \<Rightarrow> int" where
  "severityOrder s = (case s of High \<Rightarrow> 3 | Medium \<Rightarrow> 2 | Low \<Rightarrow> 1)"

text \<open>
  \<open>Array.prototype.sort\<close> is stable; with the comparator
  \<open>severityOrder[b] - severityOrder[a]\<close> it is the stable sort on the negated rank.
\<close>

definition findDiscrepancies :: "rules \<Rightarrow> entry list \<Rightarrow> js_error + discrepancy list" where
  "findDiscrepancies rs salesData =
     (case findDiscrepancies_loop rs salesData of
        Inl err \<Rightarrow> Inl err
      | Inr ds \<Rightarrow> Inr (sort_key (\<lambda>d. - severityOrder (d_overallSeverity d)) ds))"

subsection \<open>validateBusinessRules\<close>

datatype validation_type = duplicate_entry | missing_dates | abnormal_sales

record validationError =
  v_type :: validation_type
  v_severity :: severity
  v_affectedEntries :: "string list"
  v_daysMissing :: jsnum
  v_entryId :: "string option"
  v_date :: "string option"

text \<open>The key of the duplicate check, the template literal \<open>`${entry.date}-${entry.registerNumber}`\<close>.\<close>

definition entryKey :: "entry \<Rightarrow> string" where
  "entryKey e = js_str (date e) @ ''-'' @ js_str (registerNumber e)"

text \<open>
  The first forEach loop.  Its state is the \<open>Map\<close> \<open>dateRegisterPairs\<close> from keys to the
  id stored at the key's first occurrence.
\<close>

fun validateBusinessRules_duplicates ::
  "(string \<rightharpoonup> string) \<Rightarrow> entry list \<Rightarrow> validationError list" where
  "validateBusinessRules_duplicates dateRegisterPairs [] = []"
| "validateBusinessRules_duplicates dateRegisterPairs (e # es) =
     (case dateRegisterPairs (entryKey e) of
        Some firstId \<Rightarrow>
          \<lparr>v_type = duplicate_entry, v_severity = High,
           v_affectedEntries = [firstId, entryId e], v_daysMissing = None,
           v_entryId = None, v_date = None\<rparr>
          # validateBusinessRules_duplicates dateRegisterPairs es
      | None \<Rightarrow>
          validateBusinessRules_duplicates (dateRegisterPairs(entryKey e \<mapsto> entryId e)) es)"

text \<open>
  \<open>[...new Set(salesData.map(entry => entry.date))].sort()\<close>: the distinct dates in the
  order of their strings, \<open>undefined\<close> last, where \<open>sort\<close> puts it.
\<close>

definition sortedDates :: "entry list \<Rightarrow> string option list" where
  "sortedDates salesData =
     (let ds = map date salesData
      in map Some (sort (remdups (map the (filter (\<lambda>d. d \<noteq> None) ds))))
         @ (if None \<in> set ds then [None] else []))"

text \<open>
  The time value of \<open>new Date(s)\<close> is a parameter, \<open>parseDate\<close>: milliseconds, or \<open>None\<close>
  for an invalid date, which \<open>new Date(undefined)\<close> is.
\<close>

definition newDate :: "(string \<Rightarrow> jsnum) \<Rightarrow> string option \<Rightarrow> jsnum" where
  "newDate parseDate s = (case s of None \<Rightarrow> None | Some v \<Rightarrow> parseDate v)"

text \<open>The for loop over adjacent dates, \<open>i\<close> from 1.\<close>

fun validateBusinessRules_gaps ::
  "(string \<Rightarrow> jsnum) \<Rightarrow> string option list \<Rightarrow> validationError list" where
  "validateBusinessRules_gaps parseDate (previous # current # dates) =
     (let daysDiff = js_div (js_sub (newDate parseDate current) (newDate parseDate previous))
                            (Some (1000 * 60 * 60 * 24))
      in (if js_gt daysDiff (Some 1)
          then [\<lparr>v_type = missing_dates, v_severity = Medium, v_affectedEntries = [],
                  v_daysMissing = js_sub daysDiff (Some 1), v_entryId = None,
                  v_date = None\<rparr>]
          else [])
         @ validateBusinessRules_gaps parseDate (current # dates))"
| "validateBusinessRules_gaps parseDate dates = []"

text \<open>The abnormal-sales block: \<open>slice(-7)\<close>, the two \<open>reduce\<close> calls, the forEach.\<close>

definition avgSales :: "entry list \<Rightarrow> jsnum" where
  "avgSales recentSales =
     js_div (foldl (\<lambda>sum e. js_add sum (totalSales e)) (Some 0) recentSales)
            (Some (real (length recentSales)))"

definition js_pow2 :: "jsnum \<Rightarrow> jsnum" where
  "js_pow2 x = js_mul x x"

definition stdDev :: "entry list \<Rightarrow> jsnum" where
  "stdDev recentSales =
     js_sqrt (js_div (foldl (\<lambda>sum e. js_add sum
                                (js_pow2 (js_sub (totalSales e) (avgSales recentSales))))
                            (Some 0) recentSales)
                     (Some (real (length recentSales))))"

definition validateBusinessRules_abnormal :: "entry list \<Rightarrow> validationError list" where
  "validateBusinessRules_abnormal salesData =
     (if length salesData \<ge> 7
      then (let recentSales = drop (length salesData - 7) salesData
            in concat (map (\<lambda>e.
                 if js_gt (js_abs (js_sub (totalSales e) (avgSales recentSales)))
                          (js_mul (Some 2) (stdDev recentSales))
                    \<and> js_gt (stdDev recentSales) (Some 0)
                 then [\<lparr>v_type = abnormal_sales, v_severity = Medium,
                         v_affectedEntries = [], v_daysMissing = None,
                         v_entryId = Some (entryId e), v_date = date e\<rparr>]
                 else []) recentSales))
      else [])"

definition validateBusinessRules ::
  "(string \<Rightarrow> jsnum) \<Rightarrow> entry list \<Rightarrow> validationError list" where
  "validateBusinessRules parseDate salesData =
     validateBusinessRules_duplicates Map.empty salesData
     @ validateBusinessRules_gaps parseDate (sortedDates salesData)
     @ validateBusinessRules_abnormal salesData"

subsection \<open>calculateSummaryMetrics and determineOverallStatus\<close>

record summary =
  s_totalDiscrepancies :: jsnum
  s_highSeverityDiscrepancies :: jsnum
  s_totalCashVariance :: jsnum
  s_reconciliationAccuracy :: jsnum
  s_averageDiscrepancy :: jsnum
  s_cashRecoveryNeeded :: jsnum

text \<open>The recommendation texts; the recovery message carries the amount it prints.\<close>

datatype recommendation =
  ImmediateAttention | ReviewFlagged | InvestigateCashPosition | ImproveDataEntry
  | CashRecoveryNeeded real | AllChecksPassed

record overall =
  o_status :: "string option"
  o_confidence :: jsnum
  o_totalDifference :: jsnum
  o_recommendations :: "recommendation list"

record results =
  r_timestamp :: string
  r_totals :: totals
  r_discrepancies :: "discrepancy list"
  r_validationErrors :: "validationError list"
  r_summary :: summary
  r_overall :: overall

text \<open>The empty objects \<open>{}\<close> that \<open>runFullReconciliation\<close> first stores as summary and overall.\<close>

definition emptySummary :: summary where
  "emptySummary = \<lparr>s_totalDiscrepancies = None, s_highSeverityDiscrepancies = None,
                    s_totalCashVariance = None, s_reconciliationAccuracy = None,
                    s_averageDiscrepancy = None, s_cashRecoveryNeeded = None\<rparr>"

definition emptyOverall :: overall where
  "emptyOverall = \<lparr>o_status = None, o_confidence = None, o_totalDifference = None,
                    o_recommendations = []\<rparr>"

definition calculateSummaryMetrics :: "results \<Rightarrow> summary" where
  "calculateSummaryMetrics rslt =
     (let ds = r_discrepancies rslt;
          totalEntries = real (t_totalEntries (r_totals rslt));
          balancedEntries = totalEntries - real (length ds)
      in \<lparr>s_totalDiscrepancies = Some (real (length ds)),
          s_highSeverityDiscrepancies =
            Some (real (length (filter (\<lambda>d. d_overallSeverity d = High) ds))),
          s_totalCashVariance = js_abs (t_overallCashDifference (r_totals rslt)),
          s_reconciliationAccuracy =
            (if totalEntries > 0
             then js_mul (js_div (Some balancedEntries) (Some totalEntries)) (Some 100)
             else Some 100),
          s_averageDiscrepancy =
            (if length ds > 0
             then js_div (foldl (\<lambda>sum d. js_add sum (js_abs (d_cashDifference d))) (Some 0) ds)
                         (Some (real (length ds)))
             else Some 0),
          s_cashRecoveryNeeded =
            foldl (\<lambda>sum d. js_add sum (js_abs (d_cashDifference d))) (Some 0)
                  (filter (\<lambda>d. js_lt (d_cashDifference d) (Some 0)) ds)\<rparr>)"

definition determineOverallStatus :: "rules \<Rightarrow> results \<Rightarrow> overall" where
  "determineOverallStatus rs rslt =
     (let totalDifference = js_abs (t_overallCashDifference (r_totals rslt));
          (st, conf, recs1) =
            (if js_gt (s_highSeverityDiscrepancies (r_summary rslt)) (Some 0)
                \<or> list_ex (\<lambda>e. v_severity e = High) (r_validationErrors rslt)
             then (''critical'', 30, [ImmediateAttention])
             else if length (r_discrepancies rslt) > 0 \<or> length (r_validationErrors rslt) > 0
             then (''warning'', 70, [ReviewFlagged])
             else if js_gt totalDifference (Some (cashDiscrepancyThreshold rs))
             then (''discrepancy'', 60, [InvestigateCashPosition])
             else (''balanced'', 100, []));
          recs2 = recs1 @ (if js_lt (s_reconciliationAccuracy (r_summary rslt)) (Some 90)
                           then [ImproveDataEntry] else []);
          recs3 = recs2 @ (case s_cashRecoveryNeeded (r_summary rslt) of
                             Some c \<Rightarrow> if c > 0 then [CashRecoveryNeeded c] else []
                           | None \<Rightarrow> []);
          recs4 = (if length recs3 = 0 then [AllChecksPassed] else recs3)
      in \<lparr>o_status = Some st, o_confidence = Some conf, o_totalDifference = totalDifference,
          o_recommendations = recs4\<rparr>)"

subsection \<open>validateSingleEntry and addSalesData\<close>

text \<open>The messages pushed to \<open>errors\<close> and \<open>warnings\<close>, with the number each one prints.\<close>

datatype message =
  RequiredFields | LargeCashDiscrepancy real | CashDiscrepancyDetected real
  | HighReturnsPercentage real | OpeningCashBelowMinimum

record validation =
  hasErrors :: bool
  errors :: "message list"
  warnings :: "message list"

text \<open>
  Both cash messages call \<open>entry.cashDifference.toFixed(2)\<close>; \<open>cashDifference\<close> is
  \<open>undefined\<close> there when the property is absent and the threshold compared with 0 is
  negative, and the call raises.
\<close>

definition validateSingleEntry :: "rules \<Rightarrow> entry \<Rightarrow> js_error + validation" where
  "validateSingleEntry rs e =
     (let v0 = \<lparr>hasErrors = False, errors = [], warnings = []\<rparr>;
          v1 = (if js_not (date e) \<or> js_not (registerNumber e)
                then v0\<lparr>hasErrors := True, errors := errors v0 @ [RequiredFields]\<rparr>
                else v0);
          cashDiff = js_abs (js_or (cashDifference e) (Some 0));
          business = (\<lambda>v2.
            (let v3 = (if js_gt (totalSales e) (Some 0)
                       then (case js_mul (js_div (returnsRefunds e) (totalSales e)) (Some 100) of
                               Some rp \<Rightarrow>
                                 if rp > maxReturnsPercentage rs
                                 then v2\<lparr>warnings := warnings v2 @ [HighReturnsPercentage rp]\<rparr>
                                 else v2
                             | None \<Rightarrow> v2)
                       else v2)
             in if js_lt (openingCash e) (Some (minOpeningCash rs))
                then v3\<lparr>warnings := warnings v3 @ [OpeningCashBelowMinimum]\<rparr>
                else v3))
      in if js_gt cashDiff (Some (largeDiscrepancyThreshold rs))
         then (case cashDifference e of
                 None \<Rightarrow> Inl TypeError
               | Some c \<Rightarrow>
                   Inr (business (v1\<lparr>hasErrors := True,
                                      errors := errors v1 @ [LargeCashDiscrepancy c]\<rparr>)))
         else if js_gt cashDiff (Some (cashDiscrepancyThreshold rs))
         then (case cashDifference e of
                 None \<Rightarrow> Inl TypeError
               | Some c \<Rightarrow>
                   Inr (business (v1\<lparr>warnings := warnings v1 @ [CashDiscrepancyDetected c]\<rparr>)))
         else Inr (business v1))"

record addSalesDataResult =
  success :: bool
  a_errors :: "message list"
  a_warnings :: "message list"

definition addSalesData :: "rules \<Rightarrow> entry \<Rightarrow> js_error + addSalesDataResult" where
  "addSalesData rs salesEntry =
     (case validateSingleEntry rs salesEntry of
        Inl err \<Rightarrow> Inl err
      | Inr v \<Rightarrow>
          if hasErrors v
          then Inr \<lparr>success = False, a_errors = errors v, a_warnings = warnings v\<rparr>
          else Inr \<lparr>success = True, a_errors = [], a_warnings = warnings v\<rparr>)"

subsection \<open>History and the full run\<close>

record historyElement =
  h_timestamp :: string
  h_summary :: summary
  h_overall :: overall
  h_totalEntries :: nat

text \<open>The engine object: its rules, \<open>lastResults\<close> (\<open>null\<close> at first) and the history.\<close>

record engine =
  reconciliationRules :: rules
  lastResults :: "results option"
  reconciliationHistory :: "historyElement list"

text \<open>
  \<open>saveReconciliationHistory\<close>.  \<open>now\<close> is the time value of its \<open>new Date()\<close>;
  \<open>minusDays t n\<close> is the time value after \<open>setDate(getDate() - n)\<close> on a date of time
  value \<open>t\<close>, the local calendar arithmetic of the host, a parameter like \<open>parseDate\<close>.
  A Date compares by its time value, and an invalid one compares false.  Writing the
  list to \<open>localStorage\<close> is left to the collaborators.
\<close>

definition saveReconciliationHistory ::
  "(string \<Rightarrow> jsnum) \<Rightarrow> (real \<Rightarrow> nat \<Rightarrow> real) \<Rightarrow> real \<Rightarrow> engine \<Rightarrow> results \<Rightarrow> engine" where
  "saveReconciliationHistory parseDate minusDays now eng rslt =
     (let pushed = reconciliationHistory eng
                   @ [\<lparr>h_timestamp = r_timestamp rslt, h_summary = r_summary rslt,
                        h_overall = r_overall rslt,
                        h_totalEntries = t_totalEntries (r_totals rslt)\<rparr>];
          cutoffDate = minusDays now 90
      in eng\<lparr>reconciliationHistory :=
               filter (\<lambda>h. js_ge (parseDate (h_timestamp h)) (Some cutoffDate)) pushed\<rparr>)"

text \<open>
  \<open>runFullReconciliation\<close>.  \<open>timestamp\<close> is \<open>new Date().toISOString()\<close> as read at the
  start of the run.  A raise inside \<open>findDiscrepancies\<close> leaves the engine as it was.
\<close>

definition runFullReconciliation ::
  "(string \<Rightarrow> jsnum) \<Rightarrow> (real \<Rightarrow> nat \<Rightarrow> real) \<Rightarrow> string \<Rightarrow> real \<Rightarrow> engine \<Rightarrow> entry list
     \<Rightarrow> js_error + (results \<times> engine)" where
  "runFullReconciliation parseDate minusDays timestamp now eng salesData =
     (case findDiscrepancies (reconciliationRules eng) salesData of
        Inl err \<Rightarrow> Inl err
      | Inr ds \<Rightarrow>
          (let r0 = \<lparr>r_timestamp = timestamp, r_totals = calculateTotals salesData,
                      r_discrepancies = ds,
                      r_validationErrors = validateBusinessRules parseDate salesData,
                      r_summary = emptySummary, r_overall = emptyOverall\<rparr>;
               r1 = r0\<lparr>r_summary := calculateSummaryMetrics r0\<rparr>;
               r2 = r1\<lparr>r_overall := determineOverallStatus (reconciliationRules eng) r1\<rparr>
           in Inr (r2, saveReconciliationHistory parseDate minusDays now
                         (eng\<lparr>lastResults := Some r2\<rparr>) r2)))"

section \<open>The form's validation\<close>

datatype form_error =
  DateRequired | RegisterRequired | OpeningCashNegative | CashSalesNegative
  | CardSalesNegative | ClosingCashNegative | LargeCashDiscrepancyDetected real

text \<open>
  \<open>SalesReconciliationApp.validateSalesFormData\<close>: the list \<open>errors\<close> it builds, and its
  result \<open>errors.length === 0\<close>.  Showing the list is left to the page.
\<close>

definition validateSalesFormData_errors :: "entry \<Rightarrow> form_error list" where
  "validateSalesFormData_errors data =
     (if js_not (date data) then [DateRequired] else [])
     @ (if js_not (registerNumber data) then [RegisterRequired] else [])
     @ (if js_lt (openingCash data) (Some 0) then [OpeningCashNegative] else [])
     @ (if js_lt (cashSales data) (Some 0) then [CashSalesNegative] else [])
     @ (if js_lt (cardSales data) (Some 0) then [CardSalesNegative] else [])
     @ (if js_lt (closingCash data) (Some 0) then [ClosingCashNegative] else [])
     @ (case js_abs (js_sub (closingCash data)
                (js_sub (js_sub (js_add (openingCash data) (cashSales data))
                                (returnsRefunds data))
                        (cashDrops data))) of
          Some cashDifference' \<Rightarrow>
            if cashDifference' > 10 then [LargeCashDiscrepancyDetected cashDifference'] else []
        | None \<Rightarrow> [])"

definition validateSalesFormData :: "entry \<Rightarrow> bool" where
  "validateSalesFormData data = (length (validateSalesFormData_errors data) = 0)"

section \<open>Sample data\<close>

text \<open>Scenario A of the specification with a closing count seven above the expected cash.\<close>

definition entrySeven :: entry where
  "entrySeven = \<lparr>entryId = ''1'', date = Some ''2024-01-01'', registerNumber = Some ''REG001'',
                  openingCash = Some 200, cashSales = Some 150, cardSales = Some 300,
                  returnsRefunds = Some 10, cashDrops = Some 100, closingCash = Some 247,
                  expectedCash = None, cashDifference = None, totalSales = None,
                  status = None\<rparr>"


text \<open>A host in UTC: a day is 86400000 ms, and the few date strings used below parse.\<close>

definition utcMinusDays :: "real \<Rightarrow> nat \<Rightarrow> real" where
  "utcMinusDays t n = t - real n * 86400000"

definition sampleParseDate :: "string \<Rightarrow> jsnum" where
  "sampleParseDate s =
     (if s = ''2024-01-01'' then Some 1704067200000
      else if s = ''2024-01-04'' then Some 1704326400000
      else if s = ''2024-01-04T18:00:00.000Z'' then Some 1704391200000
      else if s = ''2023-09-01T18:00:00.000Z'' then Some 1693591200000
      else None)"

text \<open>Scenario B of the specification (a shortfall of 60), and an entry with a surplus of 20.\<close>

definition entryB :: entry where
  "entryB = \<lparr>entryId = ''2'', date = Some ''2024-01-01'', registerNumber = Some ''REG001'',
              openingCash = Some 200, cashSales = Some 150, cardSales = Some 300,
              returnsRefunds = Some 10, cashDrops = Some 100, closingCash = Some 180,
              expectedCash = Some 240, cashDifference = Some (-60), totalSales = Some 450,
              status = Some ''discrepancy''\<rparr>"

definition entrySurplus :: entry where
  "entrySurplus = \<lparr>entryId = ''3'', date = Some ''2024-01-04'', registerNumber = Some ''REG002'',
              openingCash = Some 200, cashSales = Some 150, cardSales = Some 300,
              returnsRefunds = Some 10, cashDrops = Some 100, closingCash = Some 260,
              expectedCash = Some 240, cashDifference = Some 20, totalSales = Some 450,
              status = Some ''discrepancy''\<rparr>"

definition engine0 :: engine where
  "engine0 = \<lparr>reconciliationRules = defaultRules, lastResults = None,
               reconciliationHistory = []\<rparr>"

text \<open>The two discrepancies of these entries, and a results object holding them.\<close>

definition sampleDiscrepancies :: "discrepancy list" where
  "sampleDiscrepancies =
     [\<lparr>d_entryId = ''2'', d_date = Some ''2024-01-01'', d_registerNumber = Some ''REG001'',
       d_cashDifference = Some (-60),
       d_issues = [\<lparr>i_type = cash_discrepancy, i_severity = High, i_amount = Some (-60),
                    i_percentage = None\<rparr>],
       d_overallSeverity = High\<rparr>,
      \<lparr>d_entryId = ''3'', d_date = Some ''2024-01-04'', d_registerNumber = Some ''REG002'',
       d_cashDifference = Some 20,
       d_issues = [\<lparr>i_type = cash_discrepancy, i_severity = Medium, i_amount = Some 20,
                    i_percentage = None\<rparr>],
       d_overallSeverity = Medium\<rparr>]"

definition sampleResultsB :: results where
  "sampleResultsB = \<lparr>r_timestamp = ''2024-01-04T18:00:00.000Z'',
      r_totals = calculateTotals [entrySurplus, entryB], r_discrepancies = sampleDiscrepancies,
      r_validationErrors = [], r_summary = emptySummary, r_overall = emptyOverall\<rparr>"

definition emptyResults :: results where
  "emptyResults = \<lparr>r_timestamp = ''2024-01-04T18:00:00.000Z'',
      r_totals = calculateTotals [], r_discrepancies = [],
      r_validationErrors = [], r_summary = emptySummary, r_overall = emptyOverall\<rparr>"

text \<open>An entry whose refunds are negative and whose cash balances.\<close>

definition entryNegativeReturns :: entry where
  "entryNegativeReturns = \<lparr>entryId = ''4'', date = Some ''2024-01-01'',
      registerNumber = Some ''REG001'',
      openingCash = Some 200, cashSales = Some 150, cardSales = Some 300,
      returnsRefunds = Some (-10), cashDrops = Some 100, closingCash = Some 260,
      expectedCash = Some 260, cashDifference = Some 0, totalSales = Some 450,
      status = Some ''balanced''\<rparr>"

text \<open>An entry whose cash sales are negative and whose cash balances.\<close>

definition entryNegativeSales :: entry where
  "entryNegativeSales = \<lparr>entryId = ''5'', date = Some ''2024-01-04'',
      registerNumber = Some ''REG001'',
      openingCash = Some 200, cashSales = Some (-5), cardSales = Some 300,
      returnsRefunds = Some 0, cashDrops = Some 0, closingCash = Some 195,
      expectedCash = Some 195, cashDifference = Some 0, totalSales = Some 295,
      status = Some ''balanced''\<rparr>"

text \<open>Two entries without \<open>totalSales\<close>: one with a quarter of its sales refunded, one without sales.\<close>

definition entryNoTotal :: entry where
  "entryNoTotal = \<lparr>entryId = ''6'', date = Some ''2024-01-01'',
      registerNumber = Some ''REG001'',
      openingCash = Some 200, cashSales = Some 100, cardSales = Some 100,
      returnsRefunds = Some 50, cashDrops = Some 0, closingCash = Some 250,
      expectedCash = Some 250, cashDifference = Some 0, totalSales = None,
      status = Some ''balanced''\<rparr>"

definition entryNoSales :: entry where
  "entryNoSales = \<lparr>entryId = ''7'', date = Some ''2024-01-01'',
      registerNumber = Some ''REG002'',
      openingCash = Some 200, cashSales = Some 0, cardSales = Some 0,
      returnsRefunds = Some 0, cashDrops = Some 0, closingCash = Some 200,
      expectedCash = Some 200, cashDifference = Some 0, totalSales = None,
      status = Some ''balanced''\<rparr>"

text \<open>An entry with \<open>totalSales\<close> 0 and refunds.\<close>

definition entryZeroSales :: entry where
  "entryZeroSales = \<lparr>entryId = ''8'', date = Some ''2024-01-01'',
      registerNumber = Some ''REG003'',
      openingCash = Some 200, cashSales = Some 0, cardSales = Some 0,
      returnsRefunds = Some 20, cashDrops = Some 0, closingCash = Some 180,
      expectedCash = Some 180, cashDifference = Some 0, totalSales = Some 0,
      status = Some ''balanced''\<rparr>"

text \<open>An entry without the derived fields \<open>expectedCash\<close> and \<open>cashDifference\<close>, opened with 50.\<close>

definition entryNoDifference :: entry where
  "entryNoDifference = \<lparr>entryId = ''17'', date = Some ''2024-01-01'',
      registerNumber = Some ''REG001'',
      openingCash = Some 50, cashSales = Some 150, cardSales = Some 300,
      returnsRefunds = Some 10, cashDrops = Some 0, closingCash = Some 190,
      expectedCash = None, cashDifference = None, totalSales = Some 450,
      status = None\<rparr>"

text \<open>An engine whose history holds a run of four months before and one of three days before.\<close>

definition engineOld :: engine where
  "engineOld = \<lparr>reconciliationRules = defaultRules, lastResults = None,
      reconciliationHistory =
        [\<lparr>h_timestamp = ''2023-09-01T18:00:00.000Z'', h_summary = emptySummary,
          h_overall = emptyOverall, h_totalEntries = 0\<rparr>,
         \<lparr>h_timestamp = ''2024-01-01'', h_summary = emptySummary,
          h_overall = emptyOverall, h_totalEntries = 1\<rparr>]\<rparr>"

text \<open>
  Eight days of one register: \<open>totalSales\<close> 450 on six days of the last seven and 1150 on
  the last; and a week of seven equal days.
\<close>

definition dayEntry :: "string \<Rightarrow> string \<Rightarrow> real \<Rightarrow> entry" where
  "dayEntry i d c = \<lparr>entryId = i, date = Some d, registerNumber = Some ''REG001'',
      openingCash = Some 200, cashSales = Some 150, cardSales = Some c,
      returnsRefunds = Some 10, cashDrops = Some 100, closingCash = Some 240,
      expectedCash = Some 240, cashDifference = Some 0, totalSales = Some (150 + c),
      status = Some ''balanced''\<rparr>"

definition weekWindow :: "entry list" where
  "weekWindow =
     [dayEntry ''10'' ''2024-01-01'' 300, dayEntry ''11'' ''2024-01-02'' 300,
      dayEntry ''12'' ''2024-01-03'' 300, dayEntry ''13'' ''2024-01-04'' 300,
      dayEntry ''14'' ''2024-01-05'' 300, dayEntry ''15'' ''2024-01-06'' 300,
      dayEntry ''16'' ''2024-01-07'' 1000]"

definition weekEntries :: "entry list" where
  "weekEntries = dayEntry ''9'' ''2023-12-31'' 5000 # weekWindow"

definition flatWeek :: "entry list" where
  "flatWeek =
     [dayEntry ''10'' ''2024-01-01'' 300, dayEntry ''11'' ''2024-01-02'' 300,
      dayEntry ''12'' ''2024-01-03'' 300, dayEntry ''13'' ''2024-01-04'' 300,
      dayEntry ''14'' ''2024-01-05'' 300, dayEntry ''15'' ''2024-01-06'' 300,
      dayEntry ''16'' ''2024-01-07'' 300]"

text \<open>The week of the window above with the \<open>totalSales\<close> of its sixth day missing.\<close>

definition gapWeek :: "entry list" where
  "gapWeek =
     [dayEntry ''10'' ''2024-01-01'' 300, dayEntry ''11'' ''2024-01-02'' 300,
      dayEntry ''12'' ''2024-01-03'' 300, dayEntry ''13'' ''2024-01-04'' 300,
      dayEntry ''14'' ''2024-01-05'' 300,
      (dayEntry ''15'' ''2024-01-06'' 300)\<lparr>totalSales := None\<rparr>,
      dayEntry ''16'' ''2024-01-07'' 1000]"

text \<open>
  Two entries of different dates and registers with one key, \<open>2024-01-01-REG001\<close>; and a
  collection with three entries of register REG001 on one day.
\<close>

definition collideA :: entry where
  "collideA = \<lparr>entryId = ''a'', date = Some ''2024-01'', registerNumber = Some ''01-REG001'',
      openingCash = Some 200, cashSales = Some 150, cardSales = Some 300,
      returnsRefunds = Some 10, cashDrops = Some 100, closingCash = Some 240,
      expectedCash = Some 240, cashDifference = Some 0, totalSales = Some 450,
      status = Some ''balanced''\<rparr>"

definition collideB :: entry where
  "collideB = \<lparr>entryId = ''b'', date = Some ''2024-01-01'', registerNumber = Some ''REG001'',
      openingCash = Some 200, cashSales = Some 150, cardSales = Some 300,
      returnsRefunds = Some 10, cashDrops = Some 100, closingCash = Some 240,
      expectedCash = Some 240, cashDifference = Some 0, totalSales = Some 450,
      status = Some ''balanced''\<rparr>"

definition dupEntries :: "entry list" where
  "dupEntries = [entryB, entrySurplus, entrySeven, entryNoTotal]"

section \<open>Notions of the specification\<close>

text \<open>
  What one discrepancy adds to the cash to recover, in the specification's words: the
  absolute difference of a shortfall, nothing for a surplus or a zero difference.
\<close>

definition shortfall :: "discrepancy \<Rightarrow> real" where
  "shortfall d = (case d_cashDifference d of Some c \<Rightarrow> if c < 0 then \<bar>c\<bar> else 0 | None \<Rightarrow> 0)"

text \<open>
  That a discrepancy is the one of entry \<open>e\<close> and carries a \<open>negative_values\<close> issue of
  severity high, which makes its overall severity high.
\<close>

definition hasNegativeValues :: "entry \<Rightarrow> discrepancy \<Rightarrow> bool" where
  "hasNegativeValues e d = (d_entryId d = entryId e \<and> d_date d = date e
      \<and> d_registerNumber d = registerNumber e \<and> d_overallSeverity d = High
      \<and> list_ex (\<lambda>i. i_type i = negative_values \<and> i_severity i = High) (d_issues d))"

text \<open>Filling in the derived field \<open>totalSales\<close> as the sum of the two sales fields.\<close>

definition withTotalSales :: "entry \<Rightarrow> entry" where
  "withTotalSales e = e\<lparr>totalSales := js_add (cashSales e) (cardSales e)\<rparr>"

text \<open>
  The compact projection of a result, and the test "not older than 90 days before
  \<open>now\<close>" on a history element, in the specification's words.
\<close>

definition compactProjection :: "results \<Rightarrow> historyElement" where
  "compactProjection rslt =
     \<lparr>h_timestamp = r_timestamp rslt, h_summary = r_summary rslt,
      h_overall = r_overall rslt, h_totalEntries = t_totalEntries (r_totals rslt)\<rparr>"

definition withinLast90Days ::
  "(string \<Rightarrow> jsnum) \<Rightarrow> (real \<Rightarrow> nat \<Rightarrow> real) \<Rightarrow> real \<Rightarrow> historyElement \<Rightarrow> bool" where
  "withinLast90Days parseDate minusDays now h =
     (case parseDate (h_timestamp h) of Some t \<Rightarrow> minusDays now 90 \<le> t | None \<Rightarrow> False)"

text \<open>
  The abnormal-sales rule in the specification's words: the window of the last seven
  entries, the mean and the population standard deviation of their \<open>totalSales\<close>, and
  the test "deviates from the mean by more than two standard deviations, the standard
  deviation being positive".  \<open>sales\<close> reads a \<open>totalSales\<close> that is present.
\<close>

definition recentWindow :: "entry list \<Rightarrow> entry list" where
  "recentWindow es = drop (length es - 7) es"

definition sales :: "entry \<Rightarrow> real" where
  "sales e = (case totalSales e of Some x \<Rightarrow> x | None \<Rightarrow> 0)"

definition windowMean :: "entry list \<Rightarrow> real" where
  "windowMean w = sum_list (map sales w) / real (length w)"

definition windowStdDev :: "entry list \<Rightarrow> real" where
  "windowStdDev w = sqrt (sum_list (map (\<lambda>e. (sales e - windowMean w)\<^sup>2) w) / real (length w))"

definition deviates :: "entry list \<Rightarrow> entry \<Rightarrow> bool" where
  "deviates w e = (\<bar>sales e - windowMean w\<bar> > 2 * windowStdDev w \<and> windowStdDev w > 0)"

definition abnormalSalesError :: "entry \<Rightarrow> validationError" where
  "abnormalSalesError e = \<lparr>v_type = abnormal_sales, v_severity = Medium,
      v_affectedEntries = [], v_daysMissing = None, v_entryId = Some (entryId e),
      v_date = date e\<rparr>"

definition isAbnormalSales :: "validationError \<Rightarrow> bool" where
  "isAbnormalSales v = (v_type v = abnormal_sales)"

text \<open>
  The data model of a sales entry: its date is present, and its register number is one of
  the registers that the sheet's validation (\<open>setupDataValidation\<close>) admits.
\<close>

definition registerNumbers :: "string list" where
  "registerNumbers = [''REG001'', ''REG002'', ''REG003'']"

definition modelEntry :: "entry \<Rightarrow> bool" where
  "modelEntry e = (date e \<noteq> None
     \<and> (case registerNumber e of Some r \<Rightarrow> r \<in> set registerNumbers | None \<Rightarrow> False))"

text \<open>
  The duplicate rule in the specification's words.  Two entries are the same pair when
  date and register number agree.  The repeat occurrences of a collection are its entries
  that come after an entry of the same pair; the first-seen id of an entry's pair is the id
  of the first entry of the collection with that pair.
\<close>

definition isDuplicateEntry :: "validationError \<Rightarrow> bool" where
  "isDuplicateEntry v = (v_type v = duplicate_entry)"

definition duplicateEntryError :: "string \<Rightarrow> string \<Rightarrow> validationError" where
  "duplicateEntryError firstId repeatId =
     \<lparr>v_type = duplicate_entry, v_severity = High, v_affectedEntries = [firstId, repeatId],
      v_daysMissing = None, v_entryId = None, v_date = None\<rparr>"

definition samePair :: "entry \<Rightarrow> entry \<Rightarrow> bool" where
  "samePair e x = (date x = date e \<and> registerNumber x = registerNumber e)"

fun repeatsAfter :: "entry list \<Rightarrow> entry list \<Rightarrow> entry list" where
  "repeatsAfter earlier [] = []"
| "repeatsAfter earlier (e # es) =
     (if list_ex (samePair e) earlier then [e] else [])
     @ repeatsAfter (earlier @ [e]) es"

definition repeats :: "entry list \<Rightarrow> entry list" where
  "repeats es = repeatsAfter [] es"

definition firstSeenId :: "entry \<Rightarrow> entry list \<Rightarrow> string" where
  "firstSeenId e es = entryId (hd (filter (samePair e) es))"

text \<open>
  The same notions on the key string that the loop compares, and what the \<open>Map\<close> of the
  loop holds after the entries \<open>earlier\<close>: for each key the id of the first of them with
  that key.
\<close>

fun keyRepeatsAfter :: "entry list \<Rightarrow> entry list \<Rightarrow> entry list" where
  "keyRepeatsAfter earlier [] = []"
| "keyRepeatsAfter earlier (e # es) =
     (if entryKey e \<in> set (map entryKey earlier) then [e] else [])
     @ keyRepeatsAfter (earlier @ [e]) es"

definition firstSeenIdByKey :: "string \<Rightarrow> entry list \<Rightarrow> string" where
  "firstSeenIdByKey k es = entryId (hd (filter (\<lambda>e. entryKey e = k) es))"

definition firstIds :: "entry list \<Rightarrow> (string \<rightharpoonup> string)" where
  "firstIds earlier k =
     (case filter (\<lambda>e. entryKey e = k) earlier of [] \<Rightarrow> None | f # _ \<Rightarrow> Some (entryId f))"

section \<open>Entry creation: the derived fields\<close>

lemma saveSalesEntry_derived:
  "saveSalesEntry sd e = sd @ [e'] \<Longrightarrow>
     expectedCash e' = js_sub (js_sub (js_add (openingCash e) (cashSales e)) (returnsRefunds e))
                              (cashDrops e)
     \<and> cashDifference e' = js_sub (closingCash e) (expectedCash e')
     \<and> totalSales e' = js_add (cashSales e) (cardSales e)
     \<and> (status e' = Some ''balanced'') = js_le (js_abs (cashDifference e')) (Some 5)"
  by (auto simp: saveSalesEntry_def Let_def split: if_splits)

lemma addSalesEntry_derived:
  "expectedCash (addSalesEntry T n e) =
       js_sub (js_sub (js_add (openingCash e) (cashSales e)) (returnsRefunds e)) (cashDrops e)
   \<and> cashDifference (addSalesEntry T n e) =
       js_sub (closingCash e) (expectedCash (addSalesEntry T n e))
   \<and> totalSales (addSalesEntry T n e) = js_add (cashSales e) (cardSales e)
   \<and> (status (addSalesEntry T n e) = Some ''balanced'') =
       js_le (js_abs (cashDifference (addSalesEntry T n e))) (Some T)"
  by (simp add: addSalesEntry_def Let_def)

text \<open>
  C1.  The derived fields of a created entry follow the three formulas on both creation
  paths, and \<open>addSalesEntry\<close> compares the difference with the configured threshold.
  \<open>saveSalesEntry\<close> compares it with the literal 5 instead: under a threshold of 10 an
  entry whose cash difference is 7 is stored as a discrepancy although 7 is within the
  threshold, while \<open>addSalesEntry\<close> with the same threshold stores it as balanced.
\<close>

theorem C1_saveSalesEntry_ignores_threshold:
  "cashDifference (last (saveSalesEntry [] entrySeven)) = Some 7
   \<and> js_le (js_abs (cashDifference (last (saveSalesEntry [] entrySeven))))
            (Some (cashDiscrepancyThreshold (defaultRules\<lparr>cashDiscrepancyThreshold := 10\<rparr>)))
   \<and> status (last (saveSalesEntry [] entrySeven)) = Some ''discrepancy''
   \<and> status (addSalesEntry 10 ''1700000000000'' entrySeven) = Some ''balanced''"
  by (simp add: saveSalesEntry_def addSalesEntry_def entrySeven_def defaultRules_def Let_def)

section \<open>The sample run\<close>

lemma findDiscrepancies_sample:
  "findDiscrepancies defaultRules [entrySurplus, entryB] = Inr sampleDiscrepancies"
  by (simp add: findDiscrepancies_def findDiscrepancies_issues_def returnsPercentage_def
      calculateOverallSeverity_def severityOrder_def entryB_def entrySurplus_def
      sampleDiscrepancies_def defaultRules_def Let_def)

lemma run_summary:
  "runFullReconciliation P M ts now eng es = Inr (r, eng') \<Longrightarrow>
     r_summary r = calculateSummaryMetrics r"
  by (auto simp: runFullReconciliation_def Let_def calculateSummaryMetrics_def
      split: sum.splits)

section \<open>When a run returns\<close>

text \<open>
  The only raise of a run is the \<open>toFixed\<close> call on an absent \<open>cashDifference\<close>, reached
  when the cash discrepancy threshold is negative.  Otherwise every run returns.
\<close>

lemma issues_return:
  "cashDifference e \<noteq> None \<or> 0 \<le> cashDiscrepancyThreshold rs \<Longrightarrow>
   \<exists>iss. findDiscrepancies_issues rs e = Inr iss"
  by (cases "cashDifference e") (auto simp: findDiscrepancies_issues_def Let_def)

lemma issues_raise:
  "cashDifference e = None \<Longrightarrow> cashDiscrepancyThreshold rs < 0 \<Longrightarrow>
   findDiscrepancies_issues rs e = Inl TypeError"
  by (simp add: findDiscrepancies_issues_def Let_def)

lemma loop_returns:
  "list_all (\<lambda>e. cashDifference e \<noteq> None) es \<or> 0 \<le> cashDiscrepancyThreshold rs \<Longrightarrow>
   \<exists>ds. findDiscrepancies_loop rs es = Inr ds"
proof (induction es)
  case Nil
  show ?case by simp
next
  case (Cons e es)
  then obtain ds where ds: "findDiscrepancies_loop rs es = Inr ds" by auto
  from Cons.prems obtain iss where "findDiscrepancies_issues rs e = Inr iss"
    using issues_return [of e rs] by auto
  with ds show ?case by simp
qed

lemma findDiscrepancies_returns:
  "list_all (\<lambda>e. cashDifference e \<noteq> None) es \<or> 0 \<le> cashDiscrepancyThreshold rs \<Longrightarrow>
   \<exists>ds. findDiscrepancies rs es = Inr ds"
  using loop_returns [of es rs] by (auto simp: findDiscrepancies_def)

lemma run_returns:
  "list_all (\<lambda>e. cashDifference e \<noteq> None) es
     \<or> 0 \<le> cashDiscrepancyThreshold (reconciliationRules eng) \<Longrightarrow>
   \<exists>r eng'. runFullReconciliation P M ts now eng es = Inr (r, eng')"
  using findDiscrepancies_returns [of es "reconciliationRules eng"]
  by (auto simp: runFullReconciliation_def Let_def)

section \<open>The overall status\<close>



section \<open>The cash to recover\<close>

lemma foldl_recovery:
  "foldl (\<lambda>sum d. js_add sum (js_abs (d_cashDifference d))) (Some a)
         (filter (\<lambda>d. js_lt (d_cashDifference d) (Some 0)) ds)
   = Some (a + sum_list (map shortfall ds))"
proof (induction ds arbitrary: a)
  case Nil
  show ?case by simp
next
  case (Cons d ds)
  show ?case
  proof (cases "d_cashDifference d")
    case None
    then show ?thesis using Cons.IH [of a] by (simp add: shortfall_def)
  next
    case (Some c)
    then show ?thesis
      using Cons.IH [of a] Cons.IH [of "a - c"] by (simp add: shortfall_def)
  qed
qed

lemma cashRecoveryNeeded_sum:
  "s_cashRecoveryNeeded (calculateSummaryMetrics rslt)
     = Some (sum_list (map shortfall (r_discrepancies rslt)))"
  using foldl_recovery [of 0 "r_discrepancies rslt"]
  by (simp add: calculateSummaryMetrics_def Let_def)

text \<open>
  C9.  A run returns whenever every entry has a cash difference or the cash discrepancy
  threshold is not negative.  In the result of every run that returns, and for every
  results object handed to \<open>calculateSummaryMetrics\<close>, \<open>cashRecoveryNeeded\<close> is the sum over
  the discrepancies of the absolute cash difference of those with a negative difference; a
  surplus or a zero difference adds nothing, and without a shortfall the sum is 0.
\<close>

theorem C9_cashRecoveryNeeded:
  "(list_all (\<lambda>e. cashDifference e \<noteq> None) es
      \<or> 0 \<le> cashDiscrepancyThreshold (reconciliationRules eng)
    \<longrightarrow> (\<exists>r eng'. runFullReconciliation P M ts now eng es = Inr (r, eng')))
   \<and> (runFullReconciliation P M ts now eng es = Inr (r, eng') \<longrightarrow>
        s_cashRecoveryNeeded (r_summary r)
          = Some (sum_list (map shortfall (r_discrepancies r))))
   \<and> s_cashRecoveryNeeded (calculateSummaryMetrics rslt)
         = Some (sum_list (map shortfall (r_discrepancies rslt)))"
  using run_returns [of es eng P M ts now] run_summary [of P M ts now eng es r eng']
    cashRecoveryNeeded_sum
  by auto

theorem C9_cashRecoveryNeeded_witness:
  "(case runFullReconciliation sampleParseDate utcMinusDays ''2024-01-04T18:00:00.000Z''
           1704391200000 engine0 [entrySurplus, entryB] of
      Inr (r, eng') \<Rightarrow>
        map d_cashDifference (r_discrepancies r) = [Some (-60), Some 20]
        \<and> s_cashRecoveryNeeded (r_summary r) = Some 60
    | Inl err \<Rightarrow> False)"
proof -
  have t: "0 \<le> cashDiscrepancyThreshold (reconciliationRules engine0)"
    by (simp add: engine0_def defaultRules_def)
  obtain r eng' where run:
    "runFullReconciliation sampleParseDate utcMinusDays ''2024-01-04T18:00:00.000Z''
       1704391200000 engine0 [entrySurplus, entryB] = Inr (r, eng')"
    using t C9_cashRecoveryNeeded
            [of "[entrySurplus, entryB]" engine0 sampleParseDate utcMinusDays
                "''2024-01-04T18:00:00.000Z''" 1704391200000]
    by blast
  have ds: "map d_cashDifference (r_discrepancies r) = [Some (-60), Some 20]"
    using run
    by (auto simp: runFullReconciliation_def findDiscrepancies_sample sampleDiscrepancies_def
        engine0_def Let_def)
  have "s_cashRecoveryNeeded (r_summary r) = Some (sum_list (map shortfall (r_discrepancies r)))"
    using run C9_cashRecoveryNeeded
            [of "[entrySurplus, entryB]" engine0 sampleParseDate utcMinusDays
                "''2024-01-04T18:00:00.000Z''" 1704391200000 r eng']
    by simp
  moreover have "sum_list (map shortfall (r_discrepancies r)) = 60"
    using ds by (auto simp: shortfall_def)
  ultimately show ?thesis using run ds by simp
qed

section \<open>The pre-save validation of one entry\<close>

lemma validateSingleEntry_cases:
  assumes "cashDifference e \<noteq> None
           \<or> (0 \<le> largeDiscrepancyThreshold rs \<and> 0 \<le> cashDiscrepancyThreshold rs)"
  shows "\<exists>v. validateSingleEntry rs e = Inr v
          \<and> hasErrors v = (js_not (date e) \<or> js_not (registerNumber e)
               \<or> js_gt (js_abs (js_or (cashDifference e) (Some 0)))
                        (Some (largeDiscrepancyThreshold rs)))
          \<and> (hasErrors v \<or> errors v = [])"
  using assms
  by (cases "cashDifference e")
     (auto simp: validateSingleEntry_def Let_def split: option.splits)

lemma validateSingleEntry_raises:
  "cashDifference e = None \<Longrightarrow>
   largeDiscrepancyThreshold rs < 0 \<or> cashDiscrepancyThreshold rs < 0 \<Longrightarrow>
   validateSingleEntry rs e = Inl TypeError"
  by (auto simp: validateSingleEntry_def Let_def)

text \<open>
  C3, in the form the code satisfies.  Whenever \<open>validateSingleEntry\<close> returns, which it does if
  \<open>cashDifference\<close> is present or the two cash thresholds are not negative, \<open>hasErrors\<close> is
  true exactly if the date or the register number is missing or the absolute cash
  difference exceeds the large discrepancy threshold, and \<open>addSalesData\<close> succeeds exactly
  if \<open>hasErrors\<close> is false, passing the errors and warnings on.
\<close>

theorem C3_validation_failure:
  assumes "cashDifference e \<noteq> None
           \<or> (0 \<le> largeDiscrepancyThreshold rs \<and> 0 \<le> cashDiscrepancyThreshold rs)"
  shows "\<exists>v. validateSingleEntry rs e = Inr v
          \<and> hasErrors v = (js_not (date e) \<or> js_not (registerNumber e)
               \<or> js_gt (js_abs (js_or (cashDifference e) (Some 0)))
                        (Some (largeDiscrepancyThreshold rs)))
          \<and> addSalesData rs e =
               Inr \<lparr>success = \<not> hasErrors v, a_errors = errors v, a_warnings = warnings v\<rparr>"
proof -
  obtain v where v: "validateSingleEntry rs e = Inr v"
    "hasErrors v = (js_not (date e) \<or> js_not (registerNumber e)
               \<or> js_gt (js_abs (js_or (cashDifference e) (Some 0)))
                        (Some (largeDiscrepancyThreshold rs)))"
    "hasErrors v \<or> errors v = []"
    using validateSingleEntry_cases [OF assms] by blast
  have "addSalesData rs e =
          Inr \<lparr>success = \<not> hasErrors v, a_errors = errors v, a_warnings = warnings v\<rparr>"
    using v(1) v(3) by (auto simp: addSalesData_def)
  with v(1) v(2) show ?thesis by blast
qed

theorem C3_validation_failure_witness:
  "validateSingleEntry defaultRules entrySurplus =
       Inr \<lparr>hasErrors = False, errors = [], warnings = [CashDiscrepancyDetected 20]\<rparr>
   \<and> addSalesData defaultRules entrySurplus =
       Inr \<lparr>success = True, a_errors = [], a_warnings = [CashDiscrepancyDetected 20]\<rparr>"
proof -
  have h: "cashDifference entrySurplus \<noteq> None
           \<or> (0 \<le> largeDiscrepancyThreshold defaultRules
               \<and> 0 \<le> cashDiscrepancyThreshold defaultRules)"
    by (simp add: entrySurplus_def)
  show ?thesis
    using C3_validation_failure [OF h]
    by (simp add: validateSingleEntry_def addSalesData_def entrySurplus_def defaultRules_def
      js_not_def Let_def)
qed

text \<open>
  As the specification words it, the property fails on Scenario B: the entry has its
  date and its register number, and its shortfall of 60 makes the validation fail.
\<close>

theorem C3_large_discrepancy_counterexample:
  "\<not> js_not (date entryB) \<and> \<not> js_not (registerNumber entryB)
   \<and> validateSingleEntry defaultRules entryB =
       Inr \<lparr>hasErrors = True, errors = [LargeCashDiscrepancy (-60)], warnings = []\<rparr>
   \<and> addSalesData defaultRules entryB =
       Inr \<lparr>success = False, a_errors = [LargeCashDiscrepancy (-60)], a_warnings = []\<rparr>"
  by (simp add: validateSingleEntry_def addSalesData_def entryB_def defaultRules_def
      js_not_def Let_def)

section \<open>Negative amounts\<close>

lemma issues_negative:
  assumes "js_lt (cashSales e) (Some 0) \<or> js_lt (cardSales e) (Some 0)
           \<or> js_lt (closingCash e) (Some 0)"
    and "findDiscrepancies_issues rs e = Inr iss"
  shows "list_ex (\<lambda>i. i_type i = negative_values \<and> i_severity i = High) iss"
  using assms
  by (auto simp: findDiscrepancies_issues_def Let_def split: if_splits option.splits)

lemma loop_negative:
  assumes "js_lt (cashSales e) (Some 0) \<or> js_lt (cardSales e) (Some 0)
           \<or> js_lt (closingCash e) (Some 0)"
  shows "e \<in> set es \<Longrightarrow> findDiscrepancies_loop rs es = Inr ds \<Longrightarrow>
         list_ex (hasNegativeValues e) ds"
proof (induction es arbitrary: ds)
  case Nil
  then show ?case by simp
next
  case (Cons x xs)
  from Cons.prems(2) obtain iss ds' where
    x: "findDiscrepancies_issues rs x = Inr iss" and
    xs: "findDiscrepancies_loop rs xs = Inr ds'" and
    ds: "ds = (if length iss > 0
               then [\<lparr>d_entryId = entryId x, d_date = date x,
                       d_registerNumber = registerNumber x,
                       d_cashDifference = cashDifference x, d_issues = iss,
                       d_overallSeverity = calculateOverallSeverity iss\<rparr>]
               else []) @ ds'"
    by (auto split: sum.splits)
  show ?case
  proof (cases "e = x")
    case True
    have ex: "list_ex (\<lambda>i. i_type i = negative_values \<and> i_severity i = High) iss"
      using issues_negative [OF assms] x True by simp
    then have "iss \<noteq> []" by auto
    moreover have "calculateOverallSeverity iss = High"
      using ex by (auto simp: calculateOverallSeverity_def list_ex_iff)
    ultimately show ?thesis using ds ex True by (simp add: hasNegativeValues_def)
  next
    case False
    then have "e \<in> set xs" using Cons.prems(1) by simp
    then have "list_ex (hasNegativeValues e) ds'" using Cons.IH xs by blast
    then show ?thesis using ds by simp
  qed
qed

lemma form_negative:
  "js_lt (openingCash e) (Some 0) \<or> js_lt (cashSales e) (Some 0)
     \<or> js_lt (cardSales e) (Some 0) \<or> js_lt (closingCash e) (Some 0)
   \<Longrightarrow> \<not> validateSalesFormData e"
  by (auto simp: validateSalesFormData_def validateSalesFormData_errors_def)

text \<open>
  C5, in the form the code satisfies.  The form's validation rejects every entry whose opening cash,
  cash sales, card sales or closing cash is negative; and whenever \<open>findDiscrepancies\<close>
  returns, every entry of the collection whose cash sales, card sales or closing cash is
  negative has a discrepancy of overall severity high with a \<open>negative_values\<close> issue.
  (Refunds and cash drops are compared with 0 nowhere.)
\<close>

theorem C5_negative_amounts_flagged:
  "(js_lt (openingCash e) (Some 0) \<or> js_lt (cashSales e) (Some 0)
      \<or> js_lt (cardSales e) (Some 0) \<or> js_lt (closingCash e) (Some 0)
    \<longrightarrow> \<not> validateSalesFormData e)
   \<and> ((js_lt (cashSales e) (Some 0) \<or> js_lt (cardSales e) (Some 0)
        \<or> js_lt (closingCash e) (Some 0))
       \<and> e \<in> set es \<and> findDiscrepancies rs es = Inr ds
      \<longrightarrow> list_ex (hasNegativeValues e) ds)"
proof -
  have "list_ex (hasNegativeValues e) ds"
    if n: "js_lt (cashSales e) (Some 0) \<or> js_lt (cardSales e) (Some 0)
           \<or> js_lt (closingCash e) (Some 0)"
      and m: "e \<in> set es" and f: "findDiscrepancies rs es = Inr ds"
  proof -
    from f obtain ds0 where l: "findDiscrepancies_loop rs es = Inr ds0"
      and s: "ds = sort_key (\<lambda>d. - severityOrder (d_overallSeverity d)) ds0"
      by (auto simp: findDiscrepancies_def split: sum.splits)
    have "list_ex (hasNegativeValues e) ds0" using loop_negative [OF n m l] .
    then show ?thesis using s by (simp add: list_ex_iff)
  qed
  then show ?thesis using form_negative [of e] by blast
qed

theorem C5_negative_amounts_flagged_witness:
  "\<not> validateSalesFormData entryNegativeSales
   \<and> (case findDiscrepancies defaultRules [entryB, entryNegativeSales] of
        Inr ds \<Rightarrow> list_ex (hasNegativeValues entryNegativeSales) ds
      | Inl err \<Rightarrow> False)"
proof -
  have n: "js_lt (cashSales entryNegativeSales) (Some 0)"
    by (simp add: entryNegativeSales_def)
  obtain ds where f: "findDiscrepancies defaultRules [entryB, entryNegativeSales] = Inr ds"
    by (simp add: findDiscrepancies_def findDiscrepancies_issues_def returnsPercentage_def
      entryB_def entryNegativeSales_def defaultRules_def Let_def)
  show ?thesis
    using C5_negative_amounts_flagged
            [of entryNegativeSales "[entryB, entryNegativeSales]" defaultRules ds] n f
    by simp
qed

text \<open>
  As the specification words it, the property fails on an entry with negative refunds
  whose cash balances: the form accepts it, the run reports neither a discrepancy nor a validation error for it,
  and the pre-save validation gives neither an error nor a warning.
\<close>

theorem C5_negative_returns_counterexample:
  "js_lt (returnsRefunds entryNegativeReturns) (Some 0)
   \<and> validateSalesFormData entryNegativeReturns
   \<and> findDiscrepancies defaultRules [entryNegativeReturns] = Inr []
   \<and> validateBusinessRules sampleParseDate [entryNegativeReturns] = []
   \<and> validateSingleEntry defaultRules entryNegativeReturns =
       Inr \<lparr>hasErrors = False, errors = [], warnings = []\<rparr>"
  by (simp add: validateSalesFormData_def validateSalesFormData_errors_def
      findDiscrepancies_def findDiscrepancies_issues_def returnsPercentage_def
      validateBusinessRules_def validateBusinessRules_abnormal_def sortedDates_def
      validateSingleEntry_def entryNegativeReturns_def defaultRules_def js_not_def Let_def)

section \<open>Guards on the divisions\<close>

lemma returnsPercentage_zero: "totalSales e = Some 0 \<Longrightarrow> returnsPercentage e = Some 0"
  by (simp add: returnsPercentage_def)

lemma returnsPercentage_number:
  "returnsRefunds e \<noteq> None \<Longrightarrow> totalSales e \<noteq> None \<Longrightarrow> returnsPercentage e \<noteq> None"
  by (auto simp: returnsPercentage_def)

lemma no_high_returns:
  assumes "totalSales e = Some 0" and "0 \<le> maxReturnsPercentage rs"
    and "findDiscrepancies_issues rs e = Inr iss"
  shows "\<not> list_ex (\<lambda>i. i_type i = high_returns) iss"
  using assms
  by (auto simp: findDiscrepancies_issues_def returnsPercentage_def Let_def
      split: if_splits option.splits)

lemma abs_sum_number:
  "list_all (\<lambda>d. d_cashDifference d \<noteq> None) ds \<Longrightarrow>
   foldl (\<lambda>sum d. js_add sum (js_abs (d_cashDifference d))) (Some a) ds \<noteq> None"
  by (induction ds arbitrary: a) auto

lemma accuracy_number: "s_reconciliationAccuracy (calculateSummaryMetrics rslt) \<noteq> None"
  by (simp add: calculateSummaryMetrics_def Let_def)

lemma accuracy_empty:
  "t_totalEntries (r_totals rslt) = 0 \<Longrightarrow>
   s_reconciliationAccuracy (calculateSummaryMetrics rslt) = Some 100"
  by (simp add: calculateSummaryMetrics_def Let_def)

lemma average_none:
  "r_discrepancies rslt = [] \<Longrightarrow> s_averageDiscrepancy (calculateSummaryMetrics rslt) = Some 0"
  by (simp add: calculateSummaryMetrics_def Let_def)

lemma average_number:
  "list_all (\<lambda>d. d_cashDifference d \<noteq> None) (r_discrepancies rslt) \<Longrightarrow>
   s_averageDiscrepancy (calculateSummaryMetrics rslt) \<noteq> None"
  using abs_sum_number [of "r_discrepancies rslt" 0]
  by (auto simp: calculateSummaryMetrics_def Let_def)

lemma run_empty:
  "\<exists>r eng'. runFullReconciliation P M ts now eng [] = Inr (r, eng')
      \<and> s_reconciliationAccuracy (r_summary r) = Some 100
      \<and> s_averageDiscrepancy (r_summary r) = Some 0"
  by (simp add: runFullReconciliation_def findDiscrepancies_def calculateTotals_def
      calculateSummaryMetrics_def Let_def)

text \<open>
  No division of the engine meets a zero divisor, where \<open>js_div\<close> would give the
  non-number \<open>None\<close>.  For an entry with \<open>totalSales\<close> 0 the returns percentage is 0 and,
  the ceiling \<open>maxReturnsPercentage\<close> not being negative, no \<open>high_returns\<close> issue is
  raised; the percentage of an entry with numeric refunds and total sales is a number.  The
  reconciliation accuracy is always a number, and 100 over 0 entries, as in the run over
  the empty collection.  The average discrepancy is 0 without discrepancies, and a number
  when every discrepancy carries a numeric cash difference.
\<close>

lemma division_guards:
  "(totalSales e = Some 0 \<longrightarrow> returnsPercentage e = Some 0)
   \<and> (totalSales e = Some 0 \<and> 0 \<le> maxReturnsPercentage rs
        \<and> findDiscrepancies_issues rs e = Inr iss
      \<longrightarrow> \<not> list_ex (\<lambda>i. i_type i = high_returns) iss)
   \<and> (returnsRefunds e \<noteq> None \<and> totalSales e \<noteq> None \<longrightarrow> returnsPercentage e \<noteq> None)
   \<and> s_reconciliationAccuracy (calculateSummaryMetrics rslt) \<noteq> None
   \<and> (t_totalEntries (r_totals rslt0) = 0
      \<longrightarrow> s_reconciliationAccuracy (calculateSummaryMetrics rslt0) = Some 100)
   \<and> (r_discrepancies rslt0 = []
      \<longrightarrow> s_averageDiscrepancy (calculateSummaryMetrics rslt0) = Some 0)
   \<and> (list_all (\<lambda>d. d_cashDifference d \<noteq> None) (r_discrepancies rslt)
      \<longrightarrow> s_averageDiscrepancy (calculateSummaryMetrics rslt) \<noteq> None)
   \<and> (\<exists>r eng'. runFullReconciliation P M ts now eng [] = Inr (r, eng')
          \<and> s_reconciliationAccuracy (r_summary r) = Some 100
          \<and> s_averageDiscrepancy (r_summary r) = Some 0)"
  using returnsPercentage_zero [of e] no_high_returns [of e rs iss]
    returnsPercentage_number [of e] accuracy_number [of rslt] accuracy_empty [of rslt0]
    average_none [of rslt0] average_number [of rslt] run_empty [of P M ts now eng]
  by blast

lemma division_guards_sample:
  "returnsPercentage entryZeroSales = Some 0
   \<and> findDiscrepancies_issues defaultRules entryZeroSales =
        Inr [\<lparr>i_type = zero_sales, i_severity = Medium, i_amount = None,
               i_percentage = None\<rparr>]
   \<and> s_reconciliationAccuracy (calculateSummaryMetrics emptyResults) = Some 100
   \<and> s_averageDiscrepancy (calculateSummaryMetrics emptyResults) = Some 0
   \<and> s_reconciliationAccuracy (calculateSummaryMetrics sampleResultsB) = Some 0
   \<and> s_averageDiscrepancy (calculateSummaryMetrics sampleResultsB) = Some 40"
proof -
  have t: "totalSales entryZeroSales = Some 0" "returnsRefunds entryZeroSales \<noteq> None"
    by (simp_all add: entryZeroSales_def)
  have m: "0 \<le> maxReturnsPercentage defaultRules" by (simp add: defaultRules_def)
  have f: "findDiscrepancies_issues defaultRules entryZeroSales =
        Inr [\<lparr>i_type = zero_sales, i_severity = Medium, i_amount = None,
               i_percentage = None\<rparr>]"
    by (simp add: findDiscrepancies_issues_def returnsPercentage_def entryZeroSales_def
        defaultRules_def Let_def)
  have d: "r_discrepancies emptyResults = []" "t_totalEntries (r_totals emptyResults) = 0"
    by (simp_all add: emptyResults_def calculateTotals_def)
  have b: "list_all (\<lambda>d. d_cashDifference d \<noteq> None) (r_discrepancies sampleResultsB)"
    by (simp add: sampleResultsB_def sampleDiscrepancies_def)
  have v: "s_reconciliationAccuracy (calculateSummaryMetrics sampleResultsB) = Some 0"
    "s_averageDiscrepancy (calculateSummaryMetrics sampleResultsB) = Some 40"
    by (simp_all add: calculateSummaryMetrics_def sampleResultsB_def sampleDiscrepancies_def
        calculateTotals_def calculateTotals_step_def Let_def)
  show ?thesis
    using division_guards [of entryZeroSales defaultRules _ sampleResultsB emptyResults]
      t m f d b v
    by simp
qed

section \<open>The history\<close>

lemma js_ge_within:
  "js_ge (P (h_timestamp h)) (Some (M now 90)) = withinLast90Days P M now h"
  by (cases "P (h_timestamp h)") (simp_all add: withinLast90Days_def)

lemma save_history:
  "reconciliationHistory (saveReconciliationHistory P M now eng rslt) =
     filter (withinLast90Days P M now) (reconciliationHistory eng)
     @ (if withinLast90Days P M now (compactProjection rslt) then [compactProjection rslt]
        else [])"
  by (simp add: saveReconciliationHistory_def Let_def js_ge_within compactProjection_def)

lemma step_totalEntries: "t_totalEntries (calculateTotals_step t e) = t_totalEntries t"
  by (simp add: calculateTotals_step_def)

lemma foldl_totalEntries: "t_totalEntries (foldl calculateTotals_step t es) = t_totalEntries t"
  by (induction es arbitrary: t) (simp_all add: step_totalEntries)

lemma calculateTotals_totalEntries: "t_totalEntries (calculateTotals es) = length es"
  by (simp add: calculateTotals_def Let_def foldl_totalEntries)

lemma run_history:
  assumes "runFullReconciliation P M ts now eng es = Inr (r, eng')"
  shows "eng' = saveReconciliationHistory P M now (eng\<lparr>lastResults := Some r\<rparr>) r
         \<and> r_timestamp r = ts \<and> t_totalEntries (r_totals r) = length es"
  using assms
  by (auto simp: runFullReconciliation_def Let_def calculateTotals_totalEntries
      split: sum.splits)

text \<open>
  C10.  A run returns whenever every entry has a cash difference or the cash discrepancy
  threshold is not negative.  After the history append of a run that returns, every
  element of the stored history has a timestamp not older than 90 days before \<open>now\<close>; the
  history is the old one without its elements older than that, followed by the compact
  projection of the run's result (timestamp, summary, overall, number of entries) if that
  is itself within the 90 days, as it is when the run's timestamp, read from the clock at
  the start of the run, is; then the projection is the last element.
\<close>

theorem C10_history_pruned:
  "(list_all (\<lambda>e. cashDifference e \<noteq> None) es
      \<or> 0 \<le> cashDiscrepancyThreshold (reconciliationRules eng)
    \<longrightarrow> (\<exists>r eng'. runFullReconciliation P M ts now eng es = Inr (r, eng')))
   \<and> (runFullReconciliation P M ts now eng es = Inr (r, eng') \<longrightarrow>
        list_all (withinLast90Days P M now) (reconciliationHistory eng')
        \<and> reconciliationHistory eng' =
             filter (withinLast90Days P M now) (reconciliationHistory eng)
             @ (if withinLast90Days P M now (compactProjection r) then [compactProjection r]
                else [])
        \<and> compactProjection r =
             \<lparr>h_timestamp = ts, h_summary = r_summary r, h_overall = r_overall r,
              h_totalEntries = length es\<rparr>
        \<and> (js_ge (P ts) (Some (M now 90)) \<longrightarrow>
             reconciliationHistory eng' \<noteq> []
             \<and> last (reconciliationHistory eng') = compactProjection r))"
proof -
  have main: "list_all (withinLast90Days P M now) (reconciliationHistory eng')
        \<and> reconciliationHistory eng' =
             filter (withinLast90Days P M now) (reconciliationHistory eng)
             @ (if withinLast90Days P M now (compactProjection r) then [compactProjection r]
                else [])
        \<and> compactProjection r =
             \<lparr>h_timestamp = ts, h_summary = r_summary r, h_overall = r_overall r,
              h_totalEntries = length es\<rparr>
        \<and> (js_ge (P ts) (Some (M now 90)) \<longrightarrow>
             reconciliationHistory eng' \<noteq> []
             \<and> last (reconciliationHistory eng') = compactProjection r)"
    if run: "runFullReconciliation P M ts now eng es = Inr (r, eng')"
  proof -
    have e: "eng' = saveReconciliationHistory P M now (eng\<lparr>lastResults := Some r\<rparr>) r"
      and t: "r_timestamp r = ts" and n: "t_totalEntries (r_totals r) = length es"
      using run_history [OF run] by simp_all
    have h: "reconciliationHistory eng' =
            filter (withinLast90Days P M now) (reconciliationHistory eng)
            @ (if withinLast90Days P M now (compactProjection r) then [compactProjection r]
               else [])"
      using save_history [of P M now "eng\<lparr>lastResults := Some r\<rparr>" r] e by simp
    have a: "list_all (withinLast90Days P M now) (reconciliationHistory eng')"
      unfolding h by (auto simp: list_all_iff)
    have c: "compactProjection r =
            \<lparr>h_timestamp = ts, h_summary = r_summary r, h_overall = r_overall r,
             h_totalEntries = length es\<rparr>"
      using t n by (simp add: compactProjection_def)
    have w: "js_ge (P ts) (Some (M now 90)) = withinLast90Days P M now (compactProjection r)"
      using js_ge_within [of P "compactProjection r" M now] c by simp
    show ?thesis using a h c w by simp
  qed
  show ?thesis using main run_returns [of es eng P M ts now] by blast
qed

theorem C10_history_pruned_witness:
  "(case runFullReconciliation sampleParseDate utcMinusDays ''2024-01-04T18:00:00.000Z''
           1704391200000 engineOld [entrySurplus, entryB] of
      Inr (r, eng') \<Rightarrow>
        map h_timestamp (reconciliationHistory eng') = [''2024-01-01'', ''2024-01-04T18:00:00.000Z'']
        \<and> last (reconciliationHistory eng') = compactProjection r
        \<and> h_totalEntries (compactProjection r) = 2
    | Inl err \<Rightarrow> False)"
proof -
  have t: "0 \<le> cashDiscrepancyThreshold (reconciliationRules engineOld)"
    by (simp add: engineOld_def defaultRules_def)
  obtain r eng' where run:
    "runFullReconciliation sampleParseDate utcMinusDays ''2024-01-04T18:00:00.000Z''
       1704391200000 engineOld [entrySurplus, entryB] = Inr (r, eng')"
    using t C10_history_pruned
            [of "[entrySurplus, entryB]" engineOld sampleParseDate utcMinusDays
                "''2024-01-04T18:00:00.000Z''" 1704391200000]
    by blast
  have g: "js_ge (sampleParseDate ''2024-01-04T18:00:00.000Z'')
             (Some (utcMinusDays 1704391200000 90))"
    by (simp add: sampleParseDate_def utcMinusDays_def)
  have w: "withinLast90Days sampleParseDate utcMinusDays 1704391200000 h
           = (h_timestamp h = ''2024-01-01'' \<or> h_timestamp h = ''2024-01-04''
              \<or> h_timestamp h = ''2024-01-04T18:00:00.000Z'')" for h
    by (simp add: withinLast90Days_def sampleParseDate_def utcMinusDays_def)
  show ?thesis
    using C10_history_pruned
            [of "[entrySurplus, entryB]" engineOld sampleParseDate utcMinusDays
                "''2024-01-04T18:00:00.000Z''" 1704391200000 r eng'] g run
    by (simp add: w engineOld_def)
qed

section \<open>Abnormal sales\<close>

lemma duplicates_not_abnormal:
  "filter isAbnormalSales (validateBusinessRules_duplicates m es) = []"
  by (induction es arbitrary: m) (auto simp: isAbnormalSales_def split: option.splits)

lemma gaps_not_abnormal:
  "filter isAbnormalSales (validateBusinessRules_gaps P ds) = []"
  by (induction P ds rule: validateBusinessRules_gaps.induct)
     (auto simp: isAbnormalSales_def Let_def)

lemma concat_if: "concat (map (\<lambda>e. if c e then [f e] else []) xs) = map f (filter c xs)"
  by (induction xs) auto

lemma foldl_present:
  "list_all (\<lambda>e. f e \<noteq> None) xs \<Longrightarrow>
   foldl (\<lambda>sum e. js_add sum (f e)) (Some a) xs
     = Some (a + sum_list (map (\<lambda>e. case f e of Some x \<Rightarrow> x | None \<Rightarrow> 0) xs))"
  by (induction xs arbitrary: a) (auto simp: add.assoc)

lemma avgSales_mean:
  assumes "list_all (\<lambda>e. totalSales e \<noteq> None) w" and "w \<noteq> []"
  shows "avgSales w = Some (windowMean w)"
  using foldl_present [OF assms(1), of 0] assms(2)
  by (simp add: avgSales_def windowMean_def sales_def [abs_def])

lemma stdDev_sd:
  assumes "list_all (\<lambda>e. totalSales e \<noteq> None) w" and "w \<noteq> []"
  shows "stdDev w = Some (windowStdDev w)"
proof -
  let ?f = "\<lambda>e. js_pow2 (js_sub (totalSales e) (Some (windowMean w)))"
  have p: "list_all (\<lambda>e. ?f e \<noteq> None) w"
    using assms(1) by (auto simp: list_all_iff js_pow2_def)
  have v: "(case ?f e of Some x \<Rightarrow> x | None \<Rightarrow> 0) = (sales e - windowMean w)\<^sup>2"
    if "e \<in> set w" for e
    using assms(1) that by (auto simp: list_all_iff js_pow2_def sales_def power2_eq_square)
  have "foldl (\<lambda>sum e. js_add sum (?f e)) (Some 0) w
          = Some (sum_list (map (\<lambda>e. (sales e - windowMean w)\<^sup>2) w))"
    using foldl_present [OF p, of 0] v by (simp cong: map_cong)
  moreover have "0 \<le> sum_list (map (\<lambda>e. (sales e - windowMean w)\<^sup>2) w) / real (length w)"
    by (intro divide_nonneg_nonneg sum_list_nonneg) auto
  ultimately show ?thesis
    using assms(2) by (simp add: stdDev_def avgSales_mean [OF assms] windowStdDev_def)
qed

lemma abnormal_window:
  assumes "7 \<le> length es" and "list_all (\<lambda>e. totalSales e \<noteq> None) (recentWindow es)"
  shows "validateBusinessRules_abnormal es
           = map abnormalSalesError (filter (deviates (recentWindow es)) (recentWindow es))"
proof -
  let ?w = "recentWindow es"
  have ne: "?w \<noteq> []" using assms(1) by (simp add: recentWindow_def)
  have c: "(js_gt (js_abs (js_sub (totalSales e) (avgSales ?w))) (js_mul (Some 2) (stdDev ?w))
            \<and> js_gt (stdDev ?w) (Some 0)) = deviates ?w e" if "e \<in> set ?w" for e
    using assms(2) that
    by (auto simp: avgSales_mean [OF assms(2) ne] stdDev_sd [OF assms(2) ne] deviates_def
        sales_def list_all_iff)
  have "validateBusinessRules_abnormal es
          = concat (map (\<lambda>e. if deviates ?w e
                            then [\<lparr>v_type = abnormal_sales, v_severity = Medium,
                                    v_affectedEntries = [], v_daysMissing = None,
                                    v_entryId = Some (entryId e), v_date = date e\<rparr>]
                            else []) ?w)"
    using assms(1) c
    by (simp add: validateBusinessRules_abnormal_def Let_def recentWindow_def [symmetric]
        cong: map_cong)
  then show ?thesis by (simp add: concat_if abnormalSalesError_def [abs_def])
qed

lemma abnormal_only:
  "filter isAbnormalSales (validateBusinessRules P es) = validateBusinessRules_abnormal es"
proof -
  have "filter isAbnormalSales (validateBusinessRules_abnormal es)
          = validateBusinessRules_abnormal es"
    by (auto simp: validateBusinessRules_abnormal_def Let_def filter_concat isAbnormalSales_def
        comp_def filter_id_conv)
  then show ?thesis
    by (simp add: validateBusinessRules_def duplicates_not_abnormal gaps_not_abnormal)
qed

lemma sum_list_constant:
  "list_all (\<lambda>e. f e = x) w \<Longrightarrow> sum_list (map f w) = real (length w) * (x::real)"
  by (induction w) (simp_all add: algebra_simps)

lemma flat_window:
  assumes "list_all (\<lambda>e. totalSales e = Some x) w" and "w \<noteq> []"
  shows "windowStdDev w = 0"
proof -
  have s: "sales e = x" if "e \<in> set w" for e
    using assms(1) that by (simp add: list_all_iff sales_def)
  then have "sum_list (map sales w) = real (length w) * x"
    using sum_list_constant [of sales x w] by (simp add: list_all_iff)
  then have m: "windowMean w = x" using assms(2) by (simp add: windowMean_def)
  have "sum_list (map (\<lambda>e. (sales e - windowMean w)\<^sup>2) w) = real (length w) * 0"
    using s m by (intro sum_list_constant) (simp add: list_all_iff)
  then show ?thesis by (simp add: windowStdDev_def)
qed

lemma js_add_None: "js_add a None = None"
  by (cases a) simp_all

lemma js_sub_None: "js_sub a None = None"
  by (cases a) simp_all

lemma foldl_NaN: "foldl (\<lambda>sum e. js_add sum (f e)) None xs = None"
  by (induction xs) simp_all

lemma foldl_absent:
  "\<not> list_all (\<lambda>e. f e \<noteq> None) xs \<Longrightarrow> foldl (\<lambda>sum e. js_add sum (f e)) a xs = None"
  by (induction xs arbitrary: a) (auto simp: js_add_None foldl_NaN)

lemma abnormal_absent:
  assumes "\<not> list_all (\<lambda>e. totalSales e \<noteq> None) (recentWindow es)"
  shows "validateBusinessRules_abnormal es = []"
proof -
  have "avgSales (recentWindow es) = None"
    using foldl_absent [OF assms, of "Some 0"] by (simp add: avgSales_def)
  then show ?thesis
    by (simp add: validateBusinessRules_abnormal_def Let_def recentWindow_def [symmetric]
        js_sub_None)
qed

text \<open>
  C7.  A collection of fewer than seven entries gets no \<open>abnormal_sales\<close> error.  For
  one of at least seven entries whose last seven have a \<open>totalSales\<close>, the window is
  exactly those last seven in input order, and the \<open>abnormal_sales\<close> errors of the run
  are, in window order, one error of severity medium (with the entry's id and date) for
  each window entry whose \<open>totalSales\<close> deviates from the window's mean by more than
  twice its population standard deviation, that deviation being positive.  A window whose
  \<open>totalSales\<close> are all equal gets none; nor does a window in which a \<open>totalSales\<close> is
  missing, whose mean is not a number.
\<close>

theorem C7_abnormal_sales:
  "(length es < 7 \<longrightarrow> filter isAbnormalSales (validateBusinessRules P es) = [])
   \<and> (7 \<le> length es \<and> list_all (\<lambda>e. totalSales e \<noteq> None) (recentWindow es) \<longrightarrow>
        length (recentWindow es) = 7
        \<and> take (length es - 7) es @ recentWindow es = es
        \<and> filter isAbnormalSales (validateBusinessRules P es)
            = map abnormalSalesError (filter (deviates (recentWindow es)) (recentWindow es)))
   \<and> (7 \<le> length es \<and> list_all (\<lambda>e. totalSales e = Some x) (recentWindow es) \<longrightarrow>
        filter isAbnormalSales (validateBusinessRules P es) = [])
   \<and> (7 \<le> length es \<and> \<not> list_all (\<lambda>e. totalSales e \<noteq> None) (recentWindow es) \<longrightarrow>
        filter isAbnormalSales (validateBusinessRules P es) = [])"
proof -
  have n: "filter isAbnormalSales (validateBusinessRules P es) = []"
    if "\<not> list_all (\<lambda>e. totalSales e \<noteq> None) (recentWindow es)"
    using abnormal_absent [OF that] by (simp add: abnormal_only)
  have a: "filter isAbnormalSales (validateBusinessRules P es) = []" if "length es < 7"
    using that by (simp add: abnormal_only validateBusinessRules_abnormal_def)
  have b: "length (recentWindow es) = 7
        \<and> take (length es - 7) es @ recentWindow es = es
        \<and> filter isAbnormalSales (validateBusinessRules P es)
            = map abnormalSalesError (filter (deviates (recentWindow es)) (recentWindow es))"
    if "7 \<le> length es" "list_all (\<lambda>e. totalSales e \<noteq> None) (recentWindow es)"
    using that abnormal_window [OF that] by (simp add: abnormal_only recentWindow_def)
  have c: "filter isAbnormalSales (validateBusinessRules P es) = []"
    if l: "7 \<le> length es" and f: "list_all (\<lambda>e. totalSales e = Some x) (recentWindow es)"
  proof -
    have p: "list_all (\<lambda>e. totalSales e \<noteq> None) (recentWindow es)"
      using f by (simp add: list_all_iff)
    have ne: "recentWindow es \<noteq> []" using l by (simp add: recentWindow_def)
    have "windowStdDev (recentWindow es) = 0" using flat_window [OF f ne] .
    then have "filter (deviates (recentWindow es)) (recentWindow es) = []"
      by (simp add: deviates_def)
    then show ?thesis using b [OF l p] by simp
  qed
  show ?thesis using a b c n by blast
qed

lemma week_window: "recentWindow weekEntries = weekWindow"
  by (simp add: recentWindow_def weekEntries_def weekWindow_def)

lemma sales_dayEntry: "sales (dayEntry i d c) = 150 + c"
  by (simp add: sales_def dayEntry_def)

lemma week_mean: "windowMean weekWindow = 550"
  by (simp add: weekWindow_def windowMean_def sales_dayEntry)

lemma week_sd: "windowStdDev weekWindow = sqrt 60000"
  unfolding windowStdDev_def week_mean by (simp add: weekWindow_def sales_dayEntry)

lemma sqrt_bounds: "244 < sqrt 60000" "sqrt 60000 < 245"
  by (rule real_less_rsqrt, simp) (rule real_less_lsqrt, simp_all)

lemma week_deviates:
  "\<not> deviates weekWindow (dayEntry i d 300)" "deviates weekWindow (dayEntry i d 1000)"
  using sqrt_bounds by (auto simp: deviates_def week_mean week_sd sales_dayEntry)

lemma week_outlier:
  "filter (deviates weekWindow) weekWindow = [dayEntry ''16'' ''2024-01-07'' 1000]"
  by (simp add: weekWindow_def week_deviates [unfolded weekWindow_def])

lemma gapWeek_absent: "\<not> list_all (\<lambda>e. totalSales e \<noteq> None) (recentWindow gapWeek)"
  by (simp add: recentWindow_def gapWeek_def)

theorem C7_abnormal_sales_witness:
  "filter isAbnormalSales (validateBusinessRules sampleParseDate [entryB, entrySurplus]) = []
   \<and> filter isAbnormalSales (validateBusinessRules sampleParseDate weekEntries)
       = [abnormalSalesError (dayEntry ''16'' ''2024-01-07'' 1000)]
   \<and> filter isAbnormalSales (validateBusinessRules sampleParseDate flatWeek) = []
   \<and> filter isAbnormalSales (validateBusinessRules sampleParseDate gapWeek) = []"
proof -
  have p: "list_all (\<lambda>e. totalSales e \<noteq> None) (recentWindow weekEntries)"
    by (simp add: week_window weekWindow_def dayEntry_def)
  have f: "list_all (\<lambda>e. totalSales e = Some 450) (recentWindow flatWeek)"
    by (simp add: recentWindow_def flatWeek_def dayEntry_def)
  have l: "length weekEntries = 8" "length flatWeek = 7" "length gapWeek = 7"
    by (simp_all add: weekEntries_def weekWindow_def flatWeek_def gapWeek_def)
  show ?thesis
    using C7_abnormal_sales [of "[entryB, entrySurplus]" sampleParseDate]
      C7_abnormal_sales [of weekEntries sampleParseDate]
      C7_abnormal_sales [of flatWeek sampleParseDate 450]
      C7_abnormal_sales [of gapWeek sampleParseDate]
      p f l week_outlier gapWeek_absent
    by (simp add: week_window)
qed

section \<open>Entries without totalSales\<close>

lemma withTotalSales_dayEntry: "withTotalSales (dayEntry i d c) = dayEntry i d c"
  by (simp add: withTotalSales_def dayEntry_def)

lemma withTotalSales_gapWeek: "map withTotalSales gapWeek = weekWindow"
  by (simp add: gapWeek_def weekWindow_def withTotalSales_dayEntry)
     (simp add: withTotalSales_def dayEntry_def)

lemma abnormal_weekWindow:
  "validateBusinessRules_abnormal weekWindow
     = [abnormalSalesError (dayEntry ''16'' ''2024-01-07'' 1000)]"
proof -
  have w: "recentWindow weekWindow = weekWindow"
    by (simp add: recentWindow_def weekWindow_def)
  have l: "7 \<le> length weekWindow" by (simp add: weekWindow_def)
  have p: "list_all (\<lambda>e. totalSales e \<noteq> None) (recentWindow weekWindow)"
    by (simp add: w) (simp add: weekWindow_def dayEntry_def)
  show ?thesis using abnormal_window [OF l p] by (simp add: w week_outlier)
qed

text \<open>
  C4.  \<open>calculateTotals\<close> falls back on \<open>cashSales + cardSales\<close> when \<open>totalSales\<close> is
  absent; \<open>findDiscrepancies\<close> and the abnormal-sales block of \<open>validateBusinessRules\<close>
  read \<open>entry.totalSales\<close> as it is.  On two entries without \<open>totalSales\<close> the totals
  agree with those of the filled-in entries, but the run over the entries as given reports
  no discrepancy, while the run over the filled-in entries reports \<open>high_returns\<close> for the
  first and \<open>zero_sales\<close> for the second.  On a week in which one day lacks \<open>totalSales\<close>
  no sale is abnormal, while in the filled-in week the last day is.
\<close>

theorem C4_missing_totalSales_not_recomputed:
  "calculateTotals [entryNoTotal, entryNoSales]
     = calculateTotals (map withTotalSales [entryNoTotal, entryNoSales])
   \<and> findDiscrepancies defaultRules [entryNoTotal, entryNoSales] = Inr []
   \<and> findDiscrepancies defaultRules (map withTotalSales [entryNoTotal, entryNoSales]) =
       Inr [\<lparr>d_entryId = ''6'', d_date = Some ''2024-01-01'',
             d_registerNumber = Some ''REG001'', d_cashDifference = Some 0,
             d_issues = [\<lparr>i_type = high_returns, i_severity = Medium, i_amount = None,
                          i_percentage = Some 25\<rparr>],
             d_overallSeverity = Medium\<rparr>,
            \<lparr>d_entryId = ''7'', d_date = Some ''2024-01-01'',
             d_registerNumber = Some ''REG002'', d_cashDifference = Some 0,
             d_issues = [\<lparr>i_type = zero_sales, i_severity = Medium, i_amount = None,
                          i_percentage = None\<rparr>],
             d_overallSeverity = Medium\<rparr>]
   \<and> validateBusinessRules_abnormal gapWeek = []
   \<and> validateBusinessRules_abnormal (map withTotalSales gapWeek)
       = [abnormalSalesError (dayEntry ''16'' ''2024-01-07'' 1000)]"
proof -
  have "calculateTotals [entryNoTotal, entryNoSales]
     = calculateTotals (map withTotalSales [entryNoTotal, entryNoSales])"
    by (simp add: calculateTotals_def calculateTotals_step_def withTotalSales_def
        entryNoTotal_def entryNoSales_def Let_def)
  moreover have "findDiscrepancies defaultRules [entryNoTotal, entryNoSales] = Inr []"
    by (simp add: findDiscrepancies_def findDiscrepancies_issues_def returnsPercentage_def
        entryNoTotal_def entryNoSales_def defaultRules_def Let_def)
  moreover have
    "findDiscrepancies defaultRules (map withTotalSales [entryNoTotal, entryNoSales]) =
       Inr [\<lparr>d_entryId = ''6'', d_date = Some ''2024-01-01'',
             d_registerNumber = Some ''REG001'', d_cashDifference = Some 0,
             d_issues = [\<lparr>i_type = high_returns, i_severity = Medium, i_amount = None,
                          i_percentage = Some 25\<rparr>],
             d_overallSeverity = Medium\<rparr>,
            \<lparr>d_entryId = ''7'', d_date = Some ''2024-01-01'',
             d_registerNumber = Some ''REG002'', d_cashDifference = Some 0,
             d_issues = [\<lparr>i_type = zero_sales, i_severity = Medium, i_amount = None,
                          i_percentage = None\<rparr>],
             d_overallSeverity = Medium\<rparr>]"
    by (simp add: findDiscrepancies_def findDiscrepancies_issues_def returnsPercentage_def
        calculateOverallSeverity_def severityOrder_def withTotalSales_def entryNoTotal_def
        entryNoSales_def defaultRules_def Let_def)
  moreover have "validateBusinessRules_abnormal gapWeek = []"
    using abnormal_absent [OF gapWeek_absent] .
  moreover have "validateBusinessRules_abnormal (map withTotalSales gapWeek)
       = [abnormalSalesError (dayEntry ''16'' ''2024-01-07'' 1000)]"
    by (simp add: withTotalSales_gapWeek abnormal_weekWindow)
  ultimately show ?thesis by simp
qed

section \<open>Averages over absent fields\<close>

text \<open>
  C8.  The guards keep every divisor from 0, yet an average of the engine can be \<open>NaN\<close>.
  \<open>calculateTotals\<close> and the cash check of \<open>findDiscrepancies\<close> read an absent
  \<open>cashDifference\<close> as 0 (\<open>entry.cashDifference || 0\<close>); the discrepancy record copies the
  property as it is, and \<open>calculateSummaryMetrics\<close> takes \<open>Math.abs\<close> of it.  The run over
  one entry without \<open>cashDifference\<close> and with an opening cash of 50 totals a cash
  difference of 0, reports one discrepancy (low opening cash) and an average discrepancy
  that is not a number.  Likewise the mean of a window in which a \<open>totalSales\<close> is missing
  is not a number.
\<close>

theorem C8_averageDiscrepancy_not_a_number:
  "t_totalCashDifference (calculateTotals [entryNoDifference]) = Some 0
   \<and> findDiscrepancies defaultRules [entryNoDifference] =
       Inr [\<lparr>d_entryId = ''17'', d_date = Some ''2024-01-01'',
             d_registerNumber = Some ''REG001'', d_cashDifference = None,
             d_issues = [\<lparr>i_type = low_opening_cash, i_severity = Low, i_amount = Some 50,
                          i_percentage = None\<rparr>],
             d_overallSeverity = Low\<rparr>]
   \<and> (case runFullReconciliation sampleParseDate utcMinusDays ''2024-01-04T18:00:00.000Z''
              1704391200000 engine0 [entryNoDifference] of
         Inr (r, eng') \<Rightarrow>
           s_totalDiscrepancies (r_summary r) = Some 1
           \<and> s_averageDiscrepancy (r_summary r) = None
       | Inl err \<Rightarrow> False)
   \<and> avgSales (recentWindow gapWeek) = None"
proof -
  have t: "t_totalCashDifference (calculateTotals [entryNoDifference]) = Some 0"
    by (simp add: calculateTotals_def calculateTotals_step_def entryNoDifference_def Let_def)
  have f: "findDiscrepancies defaultRules [entryNoDifference] =
       Inr [\<lparr>d_entryId = ''17'', d_date = Some ''2024-01-01'',
             d_registerNumber = Some ''REG001'', d_cashDifference = None,
             d_issues = [\<lparr>i_type = low_opening_cash, i_severity = Low, i_amount = Some 50,
                          i_percentage = None\<rparr>],
             d_overallSeverity = Low\<rparr>]"
    by (simp add: findDiscrepancies_def findDiscrepancies_issues_def returnsPercentage_def
        calculateOverallSeverity_def entryNoDifference_def defaultRules_def Let_def)
  have r: "(case runFullReconciliation sampleParseDate utcMinusDays ''2024-01-04T18:00:00.000Z''
              1704391200000 engine0 [entryNoDifference] of
         Inr (r, eng') \<Rightarrow>
           s_totalDiscrepancies (r_summary r) = Some 1
           \<and> s_averageDiscrepancy (r_summary r) = None
       | Inl err \<Rightarrow> False)"
    by (simp add: runFullReconciliation_def engine0_def f calculateSummaryMetrics_def Let_def)
  have a: "avgSales (recentWindow gapWeek) = None"
    using foldl_absent [OF gapWeek_absent, of "Some 0"] by (simp add: avgSales_def)
  show ?thesis using t f r a by simp
qed

section \<open>Duplicate entries\<close>

lemma firstIds_seen:
  "firstIds earlier (entryKey e) = Some i \<Longrightarrow> firstIds (earlier @ [e]) = firstIds earlier"
  by (rule ext) (auto simp: firstIds_def split: list.splits)

lemma firstIds_new:
  "firstIds earlier (entryKey e) = None \<Longrightarrow>
   firstIds (earlier @ [e]) = (firstIds earlier)(entryKey e \<mapsto> entryId e)"
  by (rule ext) (auto simp: firstIds_def split: list.splits)

lemma firstIds_Some:
  assumes "firstIds earlier k = Some i"
  shows "k \<in> set (map entryKey earlier) \<and> firstSeenIdByKey k (earlier @ es) = i"
proof -
  from assms obtain f fs where f: "filter (\<lambda>e. entryKey e = k) earlier = f # fs"
    and i: "i = entryId f"
    by (auto simp: firstIds_def split: list.splits)
  have "f \<in> set (filter (\<lambda>e. entryKey e = k) earlier)" using f by simp
  then have "k \<in> set (map entryKey earlier)" by auto
  moreover have "firstSeenIdByKey k (earlier @ es) = i"
    using f i by (simp add: firstSeenIdByKey_def)
  ultimately show ?thesis by simp
qed

lemma firstIds_None: "firstIds earlier k = None \<Longrightarrow> k \<notin> set (map entryKey earlier)"
  by (auto simp: firstIds_def filter_empty_conv split: list.splits)

lemma duplicates_refine:
  "validateBusinessRules_duplicates (firstIds earlier) es =
     map (\<lambda>e. duplicateEntryError (firstSeenIdByKey (entryKey e) (earlier @ es)) (entryId e))
         (keyRepeatsAfter earlier es)"
proof (induction es arbitrary: earlier)
  case Nil
  show ?case by simp
next
  case (Cons e es)
  have app: "earlier @ e # es = (earlier @ [e]) @ es" by simp
  let ?rest = "map (\<lambda>x. duplicateEntryError (firstSeenIdByKey (entryKey x) ((earlier @ [e]) @ es))
                             (entryId x))
                  (keyRepeatsAfter (earlier @ [e]) es)"
  show ?case
  proof (cases "firstIds earlier (entryKey e)")
    case None
    have n: "entryKey e \<notin> set (map entryKey earlier)" using firstIds_None [OF None] .
    have "validateBusinessRules_duplicates ((firstIds earlier)(entryKey e \<mapsto> entryId e)) es
            = ?rest"
      using Cons.IH [of "earlier @ [e]"] unfolding firstIds_new [OF None] .
    then have "validateBusinessRules_duplicates (firstIds earlier) (e # es) = ?rest"
      using None by simp
    moreover have "keyRepeatsAfter earlier (e # es) = keyRepeatsAfter (earlier @ [e]) es"
      using n by simp
    ultimately show ?thesis unfolding app by simp
  next
    case (Some i)
    have k: "entryKey e \<in> set (map entryKey earlier)"
      and i: "firstSeenIdByKey (entryKey e) ((earlier @ [e]) @ es) = i"
      using firstIds_Some [OF Some, of "e # es"] by simp_all
    have "validateBusinessRules_duplicates (firstIds earlier) es = ?rest"
      using Cons.IH [of "earlier @ [e]"] unfolding firstIds_seen [OF Some] .
    then have "validateBusinessRules_duplicates (firstIds earlier) (e # es)
                 = duplicateEntryError i (entryId e) # ?rest"
      using Some by (simp add: duplicateEntryError_def)
    moreover have "keyRepeatsAfter earlier (e # es) = e # keyRepeatsAfter (earlier @ [e]) es"
      using k by simp
    ultimately show ?thesis unfolding app using i by simp
  qed
qed

lemma keyRepeatsAfter_count:
  "length (filter (\<lambda>e. entryKey e = k) (keyRepeatsAfter earlier es)) =
     (if k \<in> set (map entryKey earlier) then length (filter (\<lambda>e. entryKey e = k) es)
      else length (filter (\<lambda>e. entryKey e = k) es) - 1)"
  by (induction es arbitrary: earlier) auto

lemma keyRepeatsAfter_subset: "set (keyRepeatsAfter earlier es) \<subseteq> set es"
  by (induction es arbitrary: earlier) auto

lemma firstIds_empty: "firstIds [] = Map.empty"
  by (rule ext) (simp add: firstIds_def)

lemma duplicates_keyRepeats:
  "validateBusinessRules_duplicates Map.empty es =
     map (\<lambda>e. duplicateEntryError (firstSeenIdByKey (entryKey e) es) (entryId e))
         (keyRepeatsAfter [] es)"
  using duplicates_refine [of "[]" es] by (simp add: firstIds_empty)

lemma gaps_not_duplicate:
  "filter isDuplicateEntry (validateBusinessRules_gaps P ds) = []"
  by (induction P ds rule: validateBusinessRules_gaps.induct)
     (auto simp: isDuplicateEntry_def Let_def)

lemma abnormal_not_duplicate:
  "filter isDuplicateEntry (validateBusinessRules_abnormal es) = []"
  by (auto simp: validateBusinessRules_abnormal_def Let_def filter_concat isDuplicateEntry_def
      comp_def filter_empty_conv)

lemma duplicates_only:
  "filter isDuplicateEntry (validateBusinessRules P es)
     = validateBusinessRules_duplicates Map.empty es"
  by (simp add: validateBusinessRules_def gaps_not_duplicate abnormal_not_duplicate
      duplicates_keyRepeats isDuplicateEntry_def duplicateEntryError_def filter_id_conv)

lemma key_pair:
  assumes "modelEntry e" and "modelEntry x"
  shows "(entryKey x = entryKey e) = samePair e x"
proof -
  from assms obtain d r d' r' where
    e: "date e = Some d" "registerNumber e = Some r" "r \<in> set registerNumbers" and
    x: "date x = Some d'" "registerNumber x = Some r'" "r' \<in> set registerNumbers"
    by (auto simp: modelEntry_def split: option.splits)
  have l: "length (CHR ''-'' # r') = length (CHR ''-'' # r)"
    using e(3) x(3) by (auto simp: registerNumbers_def)
  have "(d' @ CHR ''-'' # r' = d @ CHR ''-'' # r) = (d' = d \<and> CHR ''-'' # r' = CHR ''-'' # r)"
    using l by (rule append_eq_append_conv [OF disjI2])
  then show ?thesis
    using e x by (simp add: entryKey_def js_str_def samePair_def)
qed

lemma seen_by_pair:
  assumes "list_all modelEntry earlier" and "modelEntry e"
  shows "(entryKey e \<in> set (map entryKey earlier)) = list_ex (samePair e) earlier"
proof -
  have "(entryKey x = entryKey e) = samePair e x" if "x \<in> set earlier" for x
    using assms that key_pair [of e x] by (simp add: list_all_iff)
  then show ?thesis by (simp add: list_ex_iff image_iff) metis
qed

lemma keyRepeats_repeats:
  "list_all modelEntry earlier \<Longrightarrow> list_all modelEntry es \<Longrightarrow>
   keyRepeatsAfter earlier es = repeatsAfter earlier es"
proof (induction es arbitrary: earlier)
  case Nil
  show ?case by simp
next
  case (Cons e es)
  have "keyRepeatsAfter (earlier @ [e]) es = repeatsAfter (earlier @ [e]) es"
    using Cons.prems by (intro Cons.IH) simp_all
  then show ?case
    using Cons.prems seen_by_pair [of earlier e] by simp
qed

lemma pair_group:
  assumes "list_all modelEntry es" and "modelEntry e"
  shows "filter (\<lambda>x. entryKey x = entryKey e) es = filter (samePair e) es"
  using assms key_pair [OF assms(2)]
  by (intro filter_cong) (auto simp: list_all_iff)

lemma repeatsAfter_subset: "set (repeatsAfter earlier es) \<subseteq> set es"
  by (induction es arbitrary: earlier) auto

lemma samePair_trans: "samePair e x \<Longrightarrow> samePair e y = samePair x y"
  by (auto simp: samePair_def)

lemma repeatsAfter_count:
  "length (filter (samePair p) (repeatsAfter earlier es)) =
     (if list_ex (samePair p) earlier then length (filter (samePair p) es)
      else length (filter (samePair p) es) - 1)"
proof (induction es arbitrary: earlier)
  case Nil
  show ?case by simp
next
  case (Cons e es)
  show ?case
  proof (cases "samePair p e")
    case True
    have "list_ex (samePair e) earlier = list_ex (samePair p) earlier"
      using samePair_trans [OF True] by (simp add: list_ex_iff)
    then show ?thesis using True Cons.IH [of "earlier @ [e]"] by simp
  next
    case False
    then show ?thesis using Cons.IH [of "earlier @ [e]"] by simp
  qed
qed

lemma duplicates_by_pair:
  assumes "list_all modelEntry es"
  shows "filter isDuplicateEntry (validateBusinessRules P es)
     = map (\<lambda>e. duplicateEntryError (firstSeenId e es) (entryId e)) (repeats es)"
proof -
  have r: "keyRepeatsAfter [] es = repeats es"
    using keyRepeats_repeats [of "[]" es] assms by (simp add: repeats_def)
  have f: "firstSeenIdByKey (entryKey e) es = firstSeenId e es" if "e \<in> set (repeats es)" for e
  proof -
    have "e \<in> set es" using that repeatsAfter_subset [of "[]" es] by (auto simp: repeats_def)
    then have "modelEntry e" using assms by (simp add: list_all_iff)
    then show ?thesis
      using pair_group [OF assms] by (simp add: firstSeenIdByKey_def firstSeenId_def)
  qed
  show ?thesis
    using f by (simp add: duplicates_only duplicates_keyRepeats r cong: map_cong)
qed

text \<open>
  C6.  In every collection of entries of the data model, the \<open>duplicate_entry\<close> errors of
  a run are, in input order, one error of severity high per repeat occurrence, whose
  \<open>affectedEntries\<close> are the id of the first-seen entry of the same (date, registerNumber)
  pair and the id of the repeating entry.  A group of \<open>count\<close> entries sharing one pair has
  \<open>count - 1\<close> repeat occurrences, so \<open>count - 1\<close> errors, and an entry whose pair is unique
  is no repeat occurrence, so it produces no error.
\<close>

theorem C6_duplicate_entries:
  "(list_all modelEntry es \<longrightarrow>
      filter isDuplicateEntry (validateBusinessRules P es)
        = map (\<lambda>e. duplicateEntryError (firstSeenId e es) (entryId e)) (repeats es))
   \<and> length (filter (samePair p) (repeats es)) = length (filter (samePair p) es) - 1
   \<and> (length (filter (samePair p) es) = 1 \<longrightarrow> filter (samePair p) (repeats es) = [])"
proof -
  have c: "length (filter (samePair p) (repeats es)) = length (filter (samePair p) es) - 1"
    using repeatsAfter_count [of p "[]" es] by (simp add: repeats_def)
  then have "filter (samePair p) (repeats es) = []" if "length (filter (samePair p) es) = 1"
    using that by simp
  then show ?thesis using c duplicates_by_pair [of es P] by blast
qed

theorem C6_duplicate_entries_witness:
  "filter isDuplicateEntry (validateBusinessRules sampleParseDate dupEntries)
     = [duplicateEntryError ''2'' ''1'', duplicateEntryError ''2'' ''6'']
   \<and> length (filter (samePair entryB) dupEntries) = 3
   \<and> length (filter (samePair entryB) (repeats dupEntries)) = 2
   \<and> length (filter (samePair entrySurplus) dupEntries) = 1
   \<and> filter (samePair entrySurplus) (repeats dupEntries) = []"
proof -
  have w: "list_all modelEntry dupEntries"
    by (simp add: dupEntries_def modelEntry_def registerNumbers_def entryB_def
        entrySurplus_def entrySeven_def entryNoTotal_def)
  have p: "samePair entryB entrySeven" "samePair entryB entryNoTotal"
    "\<not> samePair entryB entrySurplus" "\<not> samePair entrySurplus entryB"
    "\<not> samePair entrySurplus entrySeven" "\<not> samePair entrySurplus entryNoTotal"
    "samePair entrySeven entryB" "samePair entryNoTotal entryB"
    "samePair entryNoTotal entrySeven" "samePair entrySeven entryNoTotal"
    "samePair e e" for e
    by (simp_all add: samePair_def entryB_def entrySurplus_def entrySeven_def entryNoTotal_def)
  have r: "repeats dupEntries = [entrySeven, entryNoTotal]"
    by (simp add: repeats_def dupEntries_def p)
  have n: "entryId entrySeven = ''1''" "entryId entryNoTotal = ''6''" "entryId entryB = ''2''"
    by (simp_all add: entrySeven_def entryNoTotal_def entryB_def)
  have f: "firstSeenId entrySeven dupEntries = ''2''" "firstSeenId entryNoTotal dupEntries = ''2''"
    using n(3) by (simp_all add: firstSeenId_def dupEntries_def p)
  have c: "length (filter (samePair entryB) dupEntries) = 3"
    "length (filter (samePair entrySurplus) dupEntries) = 1"
    by (simp_all add: dupEntries_def p)
  show ?thesis
    using C6_duplicate_entries [of dupEntries sampleParseDate entryB]
      C6_duplicate_entries [of dupEntries sampleParseDate entrySurplus] w c
    by (simp add: r f n)
qed

text \<open>
  Outside the data model the key need not determine the pair: the two entries below, the
  first with a register number that is not a register, differ in date and register number
  and print one key, and the loop takes the second for a repeat of the first.
\<close>

lemma key_collision_outside_model:
  "\<not> modelEntry collideA
   \<and> (date collideA, registerNumber collideA) \<noteq> (date collideB, registerNumber collideB)
   \<and> filter isDuplicateEntry (validateBusinessRules sampleParseDate [collideA, collideB])
       = [duplicateEntryError ''a'' ''b'']"
  by (simp add: duplicates_only collideA_def collideB_def entryKey_def js_str_def
      duplicateEntryError_def modelEntry_def registerNumbers_def)

end
